theory Spec2Isabelle
  imports Complex_Main
begin

section \<open>Values, errors and the bar table\<close>

text \<open>
  The four indicator classes (\<^verbatim>\<open>ichimoku.py\<close>, \<^verbatim>\<open>rsi.py\<close>, \<^verbatim>\<open>fractals.py\<close>,
  \<^verbatim>\<open>ma_cross.py\<close>) work on a pandas DataFrame of OHLCV bars. Numbers are abstracted
  to the reals: rounding, overflow and the sign of zero are not modelled. A cell of a
  series is \<open>None\<close> for NaN (the "no value" marker) and \<open>Some x\<close> otherwise; series
  computed from finite bars by the primitives used here never hold an infinity. A scalar
  taken out of a series and used in analysis-time arithmetic is a \<open>flt\<close>, which also has
  the two infinities that a division by zero produces under numpy.

  The pandas primitives are modelled with the behaviour of pandas 1.x (the source calls
  \<^verbatim>\<open>Index.get_loc(key, method='nearest')\<close>, which only that line of releases accepts).
\<close>

type_synonym cell = "real option"

datatype flt = Fin real | PInf | NInf | NaN

datatype error = KeyError | IndexError | TypeError | ValueError | ZeroDivisionError

definition bindE :: "error + 'a \<Rightarrow> ('a \<Rightarrow> error + 'b) \<Rightarrow> error + 'b" where
  "bindE m f = (case m of Inl e \<Rightarrow> Inl e | Inr x \<Rightarrow> f x)"

fun of_cell :: "cell \<Rightarrow> flt" where
  "of_cell None = NaN"
| "of_cell (Some x) = Fin x"

text \<open>Comparison of floats: every comparison with NaN is false.\<close>

definition flt_less :: "flt \<Rightarrow> flt \<Rightarrow> bool" where
  "flt_less a b =
     (case (a, b) of
        (Fin x, Fin y) \<Rightarrow> x < y
      | (NInf, Fin y) \<Rightarrow> True
      | (NInf, PInf) \<Rightarrow> True
      | (Fin x, PInf) \<Rightarrow> True
      | _ \<Rightarrow> False)"

definition flt_gt :: "flt \<Rightarrow> flt \<Rightarrow> bool" where
  "flt_gt a b = flt_less b a"

definition flt_ge :: "flt \<Rightarrow> flt \<Rightarrow> bool" where
  "flt_ge a b = (a \<noteq> NaN \<and> b \<noteq> NaN \<and> (a = b \<or> flt_less b a))"

definition flt_le :: "flt \<Rightarrow> flt \<Rightarrow> bool" where
  "flt_le a b = flt_ge b a"

text \<open>Arithmetic of floats with the IEEE special cases (the sign of zero is not modelled:
  a zero divisor counts as \<open>+0\<close>).\<close>

fun flt_neg :: "flt \<Rightarrow> flt" where
  "flt_neg (Fin x) = Fin (- x)"
| "flt_neg PInf = NInf"
| "flt_neg NInf = PInf"
| "flt_neg NaN = NaN"

fun flt_add :: "flt \<Rightarrow> flt \<Rightarrow> flt" where
  "flt_add (Fin x) (Fin y) = Fin (x + y)"
| "flt_add NaN _ = NaN"
| "flt_add _ NaN = NaN"
| "flt_add PInf NInf = NaN"
| "flt_add NInf PInf = NaN"
| "flt_add PInf _ = PInf"
| "flt_add NInf _ = NInf"
| "flt_add _ PInf = PInf"
| "flt_add _ NInf = NInf"

definition flt_sub :: "flt \<Rightarrow> flt \<Rightarrow> flt" where
  "flt_sub a b = flt_add a (flt_neg b)"

definition inf_of_sign :: "bool \<Rightarrow> flt" where
  "inf_of_sign pos = (if pos then PInf else NInf)"

fun flt_mul :: "flt \<Rightarrow> flt \<Rightarrow> flt" where
  "flt_mul (Fin x) (Fin y) = Fin (x * y)"
| "flt_mul NaN _ = NaN"
| "flt_mul _ NaN = NaN"
| "flt_mul (Fin x) PInf = (if x = 0 then NaN else inf_of_sign (0 < x))"
| "flt_mul (Fin x) NInf = (if x = 0 then NaN else inf_of_sign (x < 0))"
| "flt_mul PInf (Fin y) = (if y = 0 then NaN else inf_of_sign (0 < y))"
| "flt_mul NInf (Fin y) = (if y = 0 then NaN else inf_of_sign (y < 0))"
| "flt_mul PInf PInf = PInf"
| "flt_mul NInf NInf = PInf"
| "flt_mul PInf NInf = NInf"
| "flt_mul NInf PInf = NInf"

fun flt_div :: "flt \<Rightarrow> flt \<Rightarrow> flt" where
  "flt_div (Fin x) (Fin y) =
     (if y = 0 then (if x = 0 then NaN else inf_of_sign (0 < x)) else Fin (x / y))"
| "flt_div NaN _ = NaN"
| "flt_div _ NaN = NaN"
| "flt_div (Fin x) PInf = Fin 0"
| "flt_div (Fin x) NInf = Fin 0"
| "flt_div PInf (Fin y) = inf_of_sign (0 \<le> y)"
| "flt_div NInf (Fin y) = inf_of_sign (y < 0)"
| "flt_div PInf PInf = NaN"
| "flt_div PInf NInf = NaN"
| "flt_div NInf PInf = NaN"
| "flt_div NInf NInf = NaN"

text \<open>Python's built-in \<^verbatim>\<open>max(a, b)\<close> and \<^verbatim>\<open>min(a, b)\<close>: the first argument unless
  the second compares strictly beyond it.\<close>

definition py_max :: "flt \<Rightarrow> flt \<Rightarrow> flt" where
  "py_max a b = (if flt_gt b a then b else a)"

definition py_min :: "flt \<Rightarrow> flt \<Rightarrow> flt" where
  "py_min a b = (if flt_less b a then b else a)"

text \<open>The closed tag set of the signals.\<close>

datatype signal =
    BULLISH | BEARISH | NEUTRAL | OVERBOUGHT | OVERSOLD | RISING | FALLING
  | BREAKOUT | BREAKDOWN | RANGE | UPTREND | DOWNTREND | MIXED
  | ABOVE_BOTH | BELOW_BOTH | BETWEEN
  | STRONG_BULLISH | STRONG_BEARISH | BULLISH_BIAS | BEARISH_BIAS

subsection \<open>The DataFrame\<close>

text \<open>
  \<^verbatim>\<open>main.py\<close> builds one DataFrame from the fetched rows,
  \<^verbatim>\<open>pd.DataFrame(ohlcv, columns=['timestamp','open','high','low','close','volume'])\<close>,
  and hands the same object to every engine. It is the store of this model: a row count
  (the default index \<open>0..n-1\<close>) and a map from column names to columns. Reading a
  missing column raises \<^verbatim>\<open>KeyError\<close>; assigning a column adds or replaces it.
\<close>

record bar =
  timestamp :: int
  open' :: real
  high :: real
  low :: real
  close :: real
  volume :: real

record dataframe =
  nrows :: nat
  columns :: "string \<Rightarrow> cell list option"

definition column_of :: "(bar \<Rightarrow> real) \<Rightarrow> bar list \<Rightarrow> cell list" where
  "column_of f bars = map (\<lambda>b. Some (f b)) bars"

definition mk_df :: "bar list \<Rightarrow> dataframe" where
  "mk_df bars =
     \<lparr> nrows = length bars,
       columns = (\<lambda>c.
         if c = ''timestamp'' then Some (column_of (\<lambda>b. real_of_int (timestamp b)) bars)
         else if c = ''open'' then Some (column_of open' bars)
         else if c = ''high'' then Some (column_of high bars)
         else if c = ''low'' then Some (column_of low bars)
         else if c = ''close'' then Some (column_of close bars)
         else if c = ''volume'' then Some (column_of volume bars)
         else None) \<rparr>"

definition getcol :: "dataframe \<Rightarrow> string \<Rightarrow> error + cell list" where
  "getcol df c = (case columns df c of None \<Rightarrow> Inl KeyError | Some xs \<Rightarrow> Inr xs)"

definition setcol :: "dataframe \<Rightarrow> string \<Rightarrow> cell list \<Rightarrow> dataframe" where
  "setcol df c xs = df \<lparr> columns := (columns df)(c := Some xs) \<rparr>"

subsection \<open>Positional access\<close>

text \<open>\<^verbatim>\<open>s.iloc[k]\<close>: a negative position counts from the end, a position outside the
  series raises \<^verbatim>\<open>IndexError\<close>.\<close>

definition iloc :: "'a list \<Rightarrow> int \<Rightarrow> error + 'a" where
  "iloc xs k =
     (let n = int (length xs); j = (if k < 0 then n + k else k)
      in if 0 \<le> j \<and> j < n then Inr (xs ! nat j) else Inl IndexError)"

text \<open>\<^verbatim>\<open>s.iloc[-k:]\<close> for a non-negative \<open>k\<close>: the last \<open>k\<close> entries, and the whole
  series when \<open>k = 0\<close> (since \<^verbatim>\<open>-0 == 0\<close>).\<close>

definition iloc_tail :: "'a list \<Rightarrow> nat \<Rightarrow> 'a list" where
  "iloc_tail xs k = (if k = 0 then xs else drop (length xs - k) xs)"

section \<open>SeriesMath: the windowed primitives of pandas\<close>

text \<open>
  \<^verbatim>\<open>s.rolling(window=w, center=c)\<close> with the default \<^verbatim>\<open>min_periods = w\<close>. The result at
  position \<open>i\<close> aggregates the entries at positions \<open>[i + 1 + off - w, i + 1 + off)\<close>
  clipped to the series, where \<open>off = (w - 1) div 2\<close> for a centered window and \<open>0\<close> for
  a trailing one; it is NaN unless at least \<open>w\<close> entries of the window are not NaN.
  A negative window is refused with \<^verbatim>\<open>ValueError\<close> when the rolling object is made.
\<close>

definition window_at :: "nat \<Rightarrow> nat \<Rightarrow> 'a list \<Rightarrow> nat \<Rightarrow> 'a list" where
  "window_at w off xs i =
     (let stop = min (i + 1 + off) (length xs); start = (i + 1 + off) - w
      in take (stop - start) (drop start xs))"

definition present :: "cell list \<Rightarrow> real list" where
  "present win = map the (filter (\<lambda>c. c \<noteq> None) win)"

definition aggregate :: "(real list \<Rightarrow> real) \<Rightarrow> nat \<Rightarrow> cell list \<Rightarrow> cell" where
  "aggregate f w win =
     (let obs = present win
      in if w \<le> length obs \<and> obs \<noteq> [] then Some (f obs) else None)"

definition center_offset :: "nat \<Rightarrow> bool \<Rightarrow> nat" where
  "center_offset w center = (if center then (w - 1) div 2 else 0)"

definition roll :: "(real list \<Rightarrow> real) \<Rightarrow> nat \<Rightarrow> bool \<Rightarrow> cell list \<Rightarrow> cell list" where
  "roll f w center xs =
     map (\<lambda>i. aggregate f w (window_at w (center_offset w center) xs i)) [0..<length xs]"

definition window_max :: "real list \<Rightarrow> real" where
  "window_max ys = fold max (tl ys) (hd ys)"

definition window_min :: "real list \<Rightarrow> real" where
  "window_min ys = fold min (tl ys) (hd ys)"

definition window_mean :: "real list \<Rightarrow> real" where
  "window_mean ys = sum_list ys / real (length ys)"

definition rolling :: "(real list \<Rightarrow> real) \<Rightarrow> int \<Rightarrow> bool \<Rightarrow> cell list \<Rightarrow> error + cell list" where
  "rolling f w center xs = (if w < 0 then Inl ValueError else Inr (roll f (nat w) center xs))"

definition rolling_max :: "int \<Rightarrow> bool \<Rightarrow> cell list \<Rightarrow> error + cell list" where
  "rolling_max = rolling window_max"

definition rolling_min :: "int \<Rightarrow> bool \<Rightarrow> cell list \<Rightarrow> error + cell list" where
  "rolling_min = rolling window_min"

definition rolling_mean :: "int \<Rightarrow> bool \<Rightarrow> cell list \<Rightarrow> error + cell list" where
  "rolling_mean = rolling window_mean"

text \<open>Element-wise arithmetic of two aligned series, and of a series with a number: NaN
  propagates.\<close>

definition cell_add :: "cell \<Rightarrow> cell \<Rightarrow> cell" where
  "cell_add a b = (case (a, b) of (Some x, Some y) \<Rightarrow> Some (x + y) | _ \<Rightarrow> None)"

definition series_add :: "cell list \<Rightarrow> cell list \<Rightarrow> cell list" where
  "series_add xs ys = map2 cell_add xs ys"

definition series_half :: "cell list \<Rightarrow> cell list" where
  "series_half xs = map (map_option (\<lambda>v. v / 2)) xs"

text \<open>
  \<^verbatim>\<open>s.ewm(alpha=a, adjust=False).mean()\<close>: the recursion of pandas' \<^verbatim>\<open>ewma\<close> with
  \<^verbatim>\<open>ignore_na=False\<close> and no minimum number of periods. The running average starts at
  the first entry; a NaN entry leaves the average as it is and ages its weight; on a
  series without NaN this is \<open>y\<^sub>0 = x\<^sub>0\<close>, \<open>y\<^sub>i = (1 - a) * y\<^sub>i\<^sub>-\<^sub>1 + a * x\<^sub>i\<close>.
  pandas refuses \<open>alpha\<close> outside \<open>(0, 1]\<close> and a span below 1 with \<^verbatim>\<open>ValueError\<close>.
\<close>

fun ewm_from :: "real \<Rightarrow> cell \<Rightarrow> real \<Rightarrow> cell list \<Rightarrow> cell list" where
  "ewm_from alpha avg old_wt [] = []"
| "ewm_from alpha None old_wt (cur # rest) = cur # ewm_from alpha cur old_wt rest"
| "ewm_from alpha (Some a) old_wt (None # rest) =
     Some a # ewm_from alpha (Some a) (old_wt * (1 - alpha)) rest"
| "ewm_from alpha (Some a) old_wt (Some c # rest) =
     (let w = old_wt * (1 - alpha);
          a' = (if a \<noteq> c then (w * a + alpha * c) / (w + alpha) else a)
      in Some a' # ewm_from alpha (Some a') 1 rest)"

definition ewm_mean :: "real \<Rightarrow> cell list \<Rightarrow> cell list" where
  "ewm_mean alpha xs = (case xs of [] \<Rightarrow> [] | x # rest \<Rightarrow> x # ewm_from alpha x 1 rest)"

definition ewm_alpha :: "real \<Rightarrow> cell list \<Rightarrow> error + cell list" where
  "ewm_alpha alpha xs =
     (if 0 < alpha \<and> alpha \<le> 1 then Inr (ewm_mean alpha xs) else Inl ValueError)"

definition ewm_span :: "int \<Rightarrow> cell list \<Rightarrow> error + cell list" where
  "ewm_span n xs =
     (if n < 1 then Inl ValueError else Inr (ewm_mean (2 / (real_of_int n + 1)) xs))"

text \<open>\<^verbatim>\<open>s.diff()\<close>. On a float series: NaN first, then the difference to the predecessor.
  On a boolean series pandas computes the exclusive or with the predecessor (its
  documentation: "for boolean dtypes, this uses operator.xor rather than operator.sub"),
  in an object series whose first entry is NaN: the entries are \<^verbatim>\<open>True\<close> where the value
  changed, in either direction, and \<^verbatim>\<open>False\<close> where it did not.\<close>

definition cell_sub :: "cell \<Rightarrow> cell \<Rightarrow> cell" where
  "cell_sub a b = (case (a, b) of (Some x, Some y) \<Rightarrow> Some (x - y) | _ \<Rightarrow> None)"

definition diff_float :: "cell list \<Rightarrow> cell list" where
  "diff_float xs = (case xs of [] \<Rightarrow> [] | _ # rest \<Rightarrow> None # map2 cell_sub rest xs)"

definition diff_bool :: "bool list \<Rightarrow> bool option list" where
  "diff_bool bs = (case bs of [] \<Rightarrow> [] | _ # rest \<Rightarrow> None # map2 (\<lambda>b a. Some (b \<noteq> a)) rest bs)"

text \<open>Element-wise comparison of two aligned series: false where either side is NaN.\<close>

definition cell_gt :: "cell \<Rightarrow> cell \<Rightarrow> bool" where
  "cell_gt a b = (case (a, b) of (Some x, Some y) \<Rightarrow> x > y | _ \<Rightarrow> False)"

definition cell_eq :: "cell \<Rightarrow> cell \<Rightarrow> bool" where
  "cell_eq a b = (case (a, b) of (Some x, Some y) \<Rightarrow> x = y | _ \<Rightarrow> False)"

text \<open>A series that has been sliced or filtered keeps the labels of the rows it came from:
  it is a list of (label, value) pairs. The labels of a column of the DataFrame are the
  positions \<open>0..n-1\<close>.\<close>

definition indexed :: "'a list \<Rightarrow> (nat \<times> 'a) list" where
  "indexed xs = zip [0..<length xs] xs"

text \<open>Python's \<^verbatim>\<open>xs[k]\<close> on a list, for a non-negative \<open>k\<close>.\<close>

definition py_index :: "'a list \<Rightarrow> nat \<Rightarrow> error + 'a" where
  "py_index xs k = (if k < length xs then Inr (xs ! k) else Inl IndexError)"

section \<open>IchimokuEngine (\<^verbatim>\<open>ichimoku.py\<close>)\<close>

record ichimoku =
  tenkan_period :: int
  kijun_period :: int
  senkou_b_period :: int
  displacement :: int
  tenkan :: "cell list"
  kijun :: "cell list"
  senkou_span_a :: "cell list"
  senkou_span_b :: "cell list"

text \<open>\<^verbatim>\<open>(df['high'].rolling(window=w).max() + df['low'].rolling(window=w).min()) / 2\<close>,
  in the order the source evaluates it.\<close>

definition midline :: "dataframe \<Rightarrow> int \<Rightarrow> error + cell list" where
  "midline df w =
     bindE (getcol df ''high'') (\<lambda>hi.
     bindE (rolling_max w False hi) (\<lambda>high_w.
     bindE (getcol df ''low'') (\<lambda>lo.
     bindE (rolling_min w False lo) (\<lambda>low_w.
     Inr (series_half (series_add high_w low_w))))))"

text \<open>\<^verbatim>\<open>Ichimoku.__init__\<close> stores the periods and calls \<^verbatim>\<open>calculate\<close>; nothing is
  checked before the rolling windows are made.\<close>

definition Ichimoku_init :: "dataframe \<Rightarrow> int \<Rightarrow> int \<Rightarrow> int \<Rightarrow> int \<Rightarrow> error + ichimoku" where
  "Ichimoku_init df tp kp sp d =
     bindE (midline df tp) (\<lambda>tk.
     bindE (midline df kp) (\<lambda>kj.
     bindE (midline df sp) (\<lambda>sb.
     Inr \<lparr> tenkan_period = tp, kijun_period = kp, senkou_b_period = sp, displacement = d,
           tenkan = tk, kijun = kj,
           senkou_span_a = series_half (series_add tk kj),
           senkou_span_b = sb \<rparr>)))"

text \<open>\<^verbatim>\<open>get_current_values\<close>: the two current-cloud entries are Python's \<^verbatim>\<open>None\<close>
  (here \<open>None\<close> of the option type) when the series is not longer than the displacement.\<close>

record ichimoku_values =
  v_tenkan :: flt
  v_kijun :: flt
  current_span_a :: "flt option"
  current_span_b :: "flt option"
  future_span_a :: flt
  future_span_b :: flt

definition scalar_at :: "cell list \<Rightarrow> int \<Rightarrow> error + flt" where
  "scalar_at xs k = bindE (iloc xs k) (\<lambda>c. Inr (of_cell c))"

definition displaced :: "cell list \<Rightarrow> int \<Rightarrow> error + flt option" where
  "displaced xs d =
     (if int (length xs) > d then bindE (scalar_at xs (- d)) (\<lambda>v. Inr (Some v)) else Inr None)"

definition Ichimoku_get_current_values :: "ichimoku \<Rightarrow> error + ichimoku_values" where
  "Ichimoku_get_current_values st =
     bindE (scalar_at (tenkan st) (-1)) (\<lambda>t.
     bindE (scalar_at (kijun st) (-1)) (\<lambda>k.
     bindE (displaced (senkou_span_a st) (displacement st)) (\<lambda>ca.
     bindE (displaced (senkou_span_b st) (displacement st)) (\<lambda>cb.
     bindE (scalar_at (senkou_span_a st) (-1)) (\<lambda>fa.
     bindE (scalar_at (senkou_span_b st) (-1)) (\<lambda>fb.
     Inr \<lparr> v_tenkan = t, v_kijun = k, current_span_a = ca, current_span_b = cb,
           future_span_a = fa, future_span_b = fb \<rparr>))))))"

text \<open>\<^verbatim>\<open>analyze\<close>. The signals are kept, the formatted descriptions are not. The first
  statement after reading the values is \<^verbatim>\<open>max(values['current_span_a'],
  values['current_span_b'])\<close>, which raises \<^verbatim>\<open>TypeError\<close> when an argument is \<^verbatim>\<open>None\<close>.\<close>

record ichimoku_analysis =
  price_vs_cloud :: signal
  future_cloud :: signal
  tk_cross :: signal

definition Ichimoku_analyze :: "ichimoku \<Rightarrow> real \<Rightarrow> error + ichimoku_values \<times> ichimoku_analysis" where
  "Ichimoku_analyze st current_price =
     bindE (Ichimoku_get_current_values st) (\<lambda>values.
       case (current_span_a values, current_span_b values) of
         (Some a, Some b) \<Rightarrow>
           (let cloud_top = py_max a b;
                cloud_bottom = py_min a b
            in Inr (values,
                 \<lparr> price_vs_cloud =
                     (if flt_gt (Fin current_price) cloud_top then BULLISH
                      else if flt_less (Fin current_price) cloud_bottom then BEARISH
                      else NEUTRAL),
                   future_cloud =
                     (if flt_gt (future_span_a values) (future_span_b values) then BULLISH
                      else BEARISH),
                   tk_cross =
                     (if flt_gt (v_tenkan values) (v_kijun values) then BULLISH else BEARISH) \<rparr>))
       | _ \<Rightarrow> Inl TypeError)"

section \<open>MaCrossEngine (\<^verbatim>\<open>ma_cross.py\<close>)\<close>

record macross =
  fast_ma_period :: int
  slow_ma_period :: int
  long_ma_period :: int
  ma_type :: string
  ma_fast :: "cell list"
  ma_slow :: "cell list"
  ma_long :: "cell list"

definition moving_average :: "dataframe \<Rightarrow> string \<Rightarrow> int \<Rightarrow> error + cell list" where
  "moving_average df ty p =
     bindE (getcol df ''close'') (\<lambda>c.
       if ty = ''SMA'' then rolling_mean p False c else ewm_span p c)"

text \<open>\<^verbatim>\<open>MACross.__init__\<close> takes the fast period from \<^verbatim>\<open>fast_periods[0]\<close> and the slow and
  long periods from \<^verbatim>\<open>slow_periods[0]\<close> and \<^verbatim>\<open>slow_periods[1]\<close>, then calls
  \<^verbatim>\<open>calculate\<close>. The periods are not compared with each other.\<close>

definition MACross_init :: "dataframe \<Rightarrow> int list \<Rightarrow> int list \<Rightarrow> string \<Rightarrow> error + macross" where
  "MACross_init df fast_periods slow_periods ty =
     bindE (py_index fast_periods 0) (\<lambda>fp.
     bindE (py_index slow_periods 0) (\<lambda>sp.
     bindE (py_index slow_periods 1) (\<lambda>lp.
     bindE (moving_average df ty fp) (\<lambda>mf.
     bindE (moving_average df ty sp) (\<lambda>ms.
     bindE (moving_average df ty lp) (\<lambda>ml.
     Inr \<lparr> fast_ma_period = fp, slow_ma_period = sp, long_ma_period = lp, ma_type = ty,
           ma_fast = mf, ma_slow = ms, ma_long = ml \<rparr>))))))"

record macross_values =
  v_ma_fast :: flt
  v_ma_slow :: flt
  v_ma_long :: flt

definition MACross_get_current_values :: "macross \<Rightarrow> error + macross_values" where
  "MACross_get_current_values st =
     bindE (scalar_at (ma_fast st) (-1)) (\<lambda>f.
     bindE (scalar_at (ma_slow st) (-1)) (\<lambda>s.
     bindE (scalar_at (ma_long st) (-1)) (\<lambda>l.
     Inr \<lparr> v_ma_fast = f, v_ma_slow = s, v_ma_long = l \<rparr>)))"

text \<open>\<^verbatim>\<open>_analyze_ma_set\<close>: cross status, price position and the two percentage distances.\<close>

record ma_set_result =
  cross_status :: signal
  price_position :: signal
  from_fast :: flt
  from_slow :: flt

definition pct_of :: "flt \<Rightarrow> flt \<Rightarrow> flt" where
  "pct_of num den = flt_mul (flt_div num den) (Fin 100)"

definition analyze_ma_set :: "real \<Rightarrow> flt \<Rightarrow> flt \<Rightarrow> ma_set_result" where
  "analyze_ma_set price fast_ma slow_ma =
     \<lparr> cross_status = (if flt_gt fast_ma slow_ma then BULLISH else BEARISH),
       price_position =
         (if flt_gt (Fin price) fast_ma \<and> flt_gt (Fin price) slow_ma then ABOVE_BOTH
          else if flt_less (Fin price) fast_ma \<and> flt_less (Fin price) slow_ma then BELOW_BOTH
          else BETWEEN),
       from_fast = pct_of (flt_sub (Fin price) fast_ma) (Fin price),
       from_slow = pct_of (flt_sub (Fin price) slow_ma) (Fin price) \<rparr>"

text \<open>\<^verbatim>\<open>_analyze_market_structure\<close>: the three relative differences in percent, the weights
  0.3, 0.3 and 0.4, the weighted score and the chain of comparisons on it.\<close>

definition sign_term :: "flt \<Rightarrow> real" where
  "sign_term d = (if flt_gt d (Fin 0) then 1 else -1)"

definition weighted_score :: "real \<Rightarrow> macross_values \<Rightarrow> real" where
  "weighted_score price values =
     (let ma_fast_slow_diff = pct_of (flt_sub (v_ma_fast values) (v_ma_slow values)) (v_ma_slow values);
          ma_slow_long_diff = pct_of (flt_sub (v_ma_slow values) (v_ma_long values)) (v_ma_long values);
          price_ma_long_diff = pct_of (flt_sub (Fin price) (v_ma_long values)) (v_ma_long values)
      in 3 / 10 * sign_term ma_fast_slow_diff
       + 3 / 10 * sign_term ma_slow_long_diff
       + 4 / 10 * sign_term price_ma_long_diff)"

definition analyze_market_structure :: "real \<Rightarrow> macross_values \<Rightarrow> signal" where
  "analyze_market_structure price values =
     (let score = weighted_score price values
      in if score > 5 / 10 then STRONG_BULLISH
         else if score < - (5 / 10) then STRONG_BEARISH
         else if score > 0 then BULLISH_BIAS
         else BEARISH_BIAS)"

record macross_analysis =
  set1_short_term :: ma_set_result
  set2_long_term :: ma_set_result
  market_structure :: signal

definition MACross_analyze :: "macross \<Rightarrow> real \<Rightarrow> error + macross_values \<times> macross_analysis" where
  "MACross_analyze st current_price =
     bindE (MACross_get_current_values st) (\<lambda>values.
       Inr (values,
         \<lparr> set1_short_term = analyze_ma_set current_price (v_ma_fast values) (v_ma_slow values),
           set2_long_term = analyze_ma_set current_price (v_ma_slow values) (v_ma_long values),
           market_structure = analyze_market_structure current_price values \<rparr>))"

text \<open>
  \<^verbatim>\<open>get_cross_history\<close>. \<^verbatim>\<open>self.ma_fast > self.ma_slow\<close> is a boolean series, so its
  \<^verbatim>\<open>diff()\<close> holds \<^verbatim>\<open>True\<close>/\<^verbatim>\<open>False\<close>/NaN. The source then selects the entries equal to
  \<open>1\<close> and the entries equal to \<open>-1\<close>; in Python \<^verbatim>\<open>True == 1\<close> and \<^verbatim>\<open>False == 0\<close>, and NaN
  equals nothing. Each pair of averages reports the label of the last selected entry of
  either kind within the last \<open>lookback\<close> rows, or \<^verbatim>\<open>None\<close>.
\<close>

definition obj_eq_int :: "bool option \<Rightarrow> int \<Rightarrow> bool" where
  "obj_eq_int v k = (case v of None \<Rightarrow> False | Some b \<Rightarrow> (if b then 1 else 0) = k)"

definition last_label :: "(nat \<times> 'a) list \<Rightarrow> nat option" where
  "last_label s = (if s = [] then None else Some (fst (last s)))"

record cross_pair =
  last_golden_cross :: "nat option"
  last_death_cross :: "nat option"

definition cross_events :: "cell list \<Rightarrow> cell list \<Rightarrow> nat \<Rightarrow> cross_pair" where
  "cross_events faster slower lookback =
     (let faster_above = map2 cell_gt faster slower;
          crosses = diff_bool faster_above;
          recent_crosses = iloc_tail (indexed crosses) lookback;
          golden_cross = filter (\<lambda>(l, v). obj_eq_int v 1) recent_crosses;
          death_cross = filter (\<lambda>(l, v). obj_eq_int v (-1)) recent_crosses
      in \<lparr> last_golden_cross = last_label golden_cross,
           last_death_cross = last_label death_cross \<rparr>)"

definition get_cross_history :: "macross \<Rightarrow> nat \<Rightarrow> cross_pair \<times> cross_pair" where
  "get_cross_history st lookback =
     (cross_events (ma_fast st) (ma_slow st) lookback,
      cross_events (ma_slow st) (ma_long st) lookback)"

section \<open>FractalEngine (\<^verbatim>\<open>fractals.py\<close>)\<close>

text \<open>
  \<^verbatim>\<open>WilliamsFractals.calculate\<close> assigns its two derived series to the DataFrame it was
  given (\<^verbatim>\<open>self.df['fractal_up'] = ...\<close>, \<^verbatim>\<open>self.df['fractal_down'] = ...\<close>), each first
  as the centered rolling extremum and then as \<^verbatim>\<open>np.where(column == extremum, column,
  nan)\<close>. The constructor therefore returns the updated store next to the engine.
\<close>

record fractals =
  period :: int
  last_up_fractal :: "real option"
  last_down_fractal :: "real option"
  recent_up_fractals :: "real list"
  recent_down_fractals :: "real list"

definition where_equal :: "cell list \<Rightarrow> cell list \<Rightarrow> cell list" where
  "where_equal xs ys = map2 (\<lambda>x y. if cell_eq x y then x else None) xs ys"

definition dropna :: "cell list \<Rightarrow> real list" where
  "dropna xs = present xs"

definition last_or_none :: "real list \<Rightarrow> real option" where
  "last_or_none ys = (if ys = [] then None else Some (last ys))"

definition tail5 :: "'a list \<Rightarrow> 'a list" where
  "tail5 ys = drop (length ys - 5) ys"

definition fractal_column ::
  "dataframe \<Rightarrow> string \<Rightarrow> string \<Rightarrow> (int \<Rightarrow> bool \<Rightarrow> cell list \<Rightarrow> error + cell list) \<Rightarrow> int
     \<Rightarrow> error + dataframe" where
  "fractal_column df src dst extremum window_size =
     bindE (getcol df src) (\<lambda>xs.
     bindE (extremum window_size True xs) (\<lambda>ext.
     (let df1 = setcol df dst ext
      in bindE (getcol df1 src) (\<lambda>xs1.
         bindE (getcol df1 dst) (\<lambda>ext1.
         Inr (setcol df1 dst (where_equal xs1 ext1)))))))"

definition WilliamsFractals_init :: "dataframe \<Rightarrow> int \<Rightarrow> error + dataframe \<times> fractals" where
  "WilliamsFractals_init df n =
     (let window_size = 2 * n + 1
      in bindE (fractal_column df ''high'' ''fractal_up'' rolling_max window_size) (\<lambda>df1.
         bindE (fractal_column df1 ''low'' ''fractal_down'' rolling_min window_size) (\<lambda>df2.
         bindE (getcol df2 ''fractal_up'') (\<lambda>up.
         bindE (getcol df2 ''fractal_down'') (\<lambda>down.
         Inr (df2,
           \<lparr> period = n,
             last_up_fractal = last_or_none (dropna up),
             last_down_fractal = last_or_none (dropna down),
             recent_up_fractals = tail5 (dropna up),
             recent_down_fractals = tail5 (dropna down) \<rparr>))))))"

text \<open>\<^verbatim>\<open>analyze\<close>. The guards of the position and of the distances are the truth values
  of the two last fractals: \<^verbatim>\<open>None\<close> is false and so is the number \<open>0.0\<close>.\<close>

definition truthy :: "real option \<Rightarrow> bool" where
  "truthy v = (case v of None \<Rightarrow> False | Some x \<Rightarrow> x \<noteq> 0)"

text \<open>The backward scan: \<^verbatim>\<open>for i in range(1, len(self.df)): idx = -i\<close> reads the rows at
  positions \<open>-1, -2, ..., -(len - 1)\<close>, appends a token for a row that is a fractal and
  leaves the loop once ten tokens are collected.\<close>

fun scan_fractals :: "cell list \<Rightarrow> cell list \<Rightarrow> nat list \<Rightarrow> string list \<Rightarrow> error + string list" where
  "scan_fractals fractal_up fractal_down [] acc = Inr acc"
| "scan_fractals fractal_up fractal_down (i # rest) acc =
     bindE (iloc fractal_up (- int i)) (\<lambda>u.
       if u \<noteq> None then
         (let acc' = acc @ [''up'']
          in if length acc' = 10 then Inr acc' else scan_fractals fractal_up fractal_down rest acc')
       else
         bindE (iloc fractal_down (- int i)) (\<lambda>d.
           (let acc' = (if d \<noteq> None then acc @ [''down''] else acc)
            in if length acc' = 10 then Inr acc'
               else scan_fractals fractal_up fractal_down rest acc')))"

definition pad_none :: "string list \<Rightarrow> string list" where
  "pad_none acc = acc @ replicate (10 - length acc) ''none''"

definition dominance_of :: "string list \<Rightarrow> string" where
  "dominance_of recent_fractals =
     (let up_count = count_list recent_fractals ''up'';
          down_count = count_list recent_fractals ''down''
      in if up_count > down_count then ''UP fractals dominate recent price action''
         else if down_count > up_count then ''DOWN fractals dominate recent price action''
         else ''No clear dominance in recent fractals'')"

record fractal_distances =
  to_resistance :: flt
  to_support :: flt

record fractal_analysis =
  position :: "signal option"
  fractal_trend :: "signal option"
  distances :: "fractal_distances option"
  recent_sequence :: "string list"
  dominance :: string

definition position_signal :: "fractals \<Rightarrow> real \<Rightarrow> signal option" where
  "position_signal st current_price =
     (if truthy (last_up_fractal st) \<and> truthy (last_down_fractal st) then
        (if current_price > the (last_up_fractal st) then Some BREAKOUT
         else if current_price < the (last_down_fractal st) then Some BREAKDOWN
         else Some RANGE)
      else None)"

definition trend_signal :: "fractals \<Rightarrow> signal option" where
  "trend_signal st =
     (if length (recent_up_fractals st) \<ge> 2 \<and> length (recent_down_fractals st) \<ge> 2 then
        (let up_trend = last (recent_up_fractals st) > hd (recent_up_fractals st);
             down_trend = last (recent_down_fractals st) > hd (recent_down_fractals st)
         in if up_trend \<and> down_trend then Some UPTREND
            else if \<not> up_trend \<and> \<not> down_trend then Some DOWNTREND
            else Some MIXED)
      else None)"

definition distance_values :: "fractals \<Rightarrow> real \<Rightarrow> fractal_distances option" where
  "distance_values st current_price =
     (if truthy (last_up_fractal st) \<and> truthy (last_down_fractal st) then
        Some \<lparr> to_resistance =
                 pct_of (Fin (the (last_up_fractal st) - current_price)) (Fin current_price),
               to_support =
                 pct_of (Fin (current_price - the (last_down_fractal st))) (Fin current_price) \<rparr>
      else None)"

definition recent_fractal_sequence :: "dataframe \<Rightarrow> error + string list" where
  "recent_fractal_sequence df =
     bindE (getcol df ''fractal_up'') (\<lambda>fractal_up.
     bindE (getcol df ''fractal_down'') (\<lambda>fractal_down.
     bindE (scan_fractals fractal_up fractal_down [1..<nrows df] []) (\<lambda>acc.
     Inr (pad_none acc))))"

definition WilliamsFractals_analyze ::
  "dataframe \<Rightarrow> fractals \<Rightarrow> real \<Rightarrow> error + fractals \<times> fractal_analysis" where
  "WilliamsFractals_analyze df st current_price =
     bindE (recent_fractal_sequence df) (\<lambda>recent_fractals.
       Inr (st,
         \<lparr> position = position_signal st current_price,
           fractal_trend = trend_signal st,
           distances = distance_values st current_price,
           recent_sequence = recent_fractals,
           dominance = dominance_of recent_fractals \<rparr>))"

section \<open>RsiEngine (\<^verbatim>\<open>rsi.py\<close>)\<close>

record rsi =
  rsi_length :: int
  smoothing_type :: string
  smoothing_length :: int
  upper_limit :: real
  middle_limit :: real
  lower_limit :: real
  rsi_series :: "cell list"
  smoothed_rsi :: "cell list"

text \<open>\<^verbatim>\<open>delta.where(delta > 0, 0)\<close> and \<^verbatim>\<open>-delta.where(delta < 0, 0)\<close>: the entry where
  the condition holds, \<open>0\<close> elsewhere (also where \<open>delta\<close> is NaN).\<close>

definition gain_of :: "cell \<Rightarrow> cell" where
  "gain_of d = (if cell_gt d (Some 0) then d else Some 0)"

definition loss_of :: "cell \<Rightarrow> cell" where
  "loss_of d = map_option uminus (if cell_gt (Some 0) d then d else Some 0)"

text \<open>\<^verbatim>\<open>100 - (100 / (1 + avg_gains / avg_losses))\<close> on one pair of entries, in float
  arithmetic: a zero average loss gives an infinite ratio and the value \<open>100\<close>, or NaN
  when the average gain is zero as well. An infinite result cannot be stored in a cell of
  this model; it needs a ratio of \<open>-1\<close>, which averages of non-negative numbers never
  give.\<close>

definition to_cell :: "flt \<Rightarrow> cell" where
  "to_cell v = (case v of Fin x \<Rightarrow> Some x | _ \<Rightarrow> None)"

definition rsi_value :: "cell \<Rightarrow> cell \<Rightarrow> cell" where
  "rsi_value avg_gain avg_loss =
     (let rs = flt_div (of_cell avg_gain) (of_cell avg_loss)
      in to_cell (flt_sub (Fin 100) (flt_div (Fin 100) (flt_add (Fin 1) rs))))"

text \<open>\<^verbatim>\<open>1 / self.length\<close> is Python's division: a zero length raises
  \<^verbatim>\<open>ZeroDivisionError\<close>.\<close>

definition wilder_alpha :: "int \<Rightarrow> error + real" where
  "wilder_alpha n = (if n = 0 then Inl ZeroDivisionError else Inr (1 / real_of_int n))"

definition smooth :: "string \<Rightarrow> int \<Rightarrow> cell list \<Rightarrow> error + cell list" where
  "smooth ty n xs =
     (if ty = ''SMA'' then rolling_mean n False xs
      else if ty = ''EMA'' then ewm_span n xs
      else Inr xs)"

definition RSI_init ::
  "dataframe \<Rightarrow> int \<Rightarrow> string \<Rightarrow> int \<Rightarrow> real \<Rightarrow> real \<Rightarrow> real \<Rightarrow> error + rsi" where
  "RSI_init df n ty sn upper middle lower =
     bindE (getcol df ''close'') (\<lambda>c.
       (let delta = diff_float c;
            gains = map gain_of delta;
            losses = map loss_of delta
        in bindE (wilder_alpha n) (\<lambda>a1.
           bindE (ewm_alpha a1 gains) (\<lambda>avg_gains.
           bindE (wilder_alpha n) (\<lambda>a2.
           bindE (ewm_alpha a2 losses) (\<lambda>avg_losses.
           (let r = map2 rsi_value avg_gains avg_losses
            in bindE (smooth ty sn r) (\<lambda>sm.
               Inr \<lparr> rsi_length = n, smoothing_type = ty, smoothing_length = sn,
                     upper_limit = upper, middle_limit = middle, lower_limit = lower,
                     rsi_series = r, smoothed_rsi = sm \<rparr>))))))))"

record rsi_values =
  v_rsi :: flt
  v_smoothed_rsi :: flt

definition RSI_get_current_values :: "rsi \<Rightarrow> error + rsi_values" where
  "RSI_get_current_values st =
     bindE (scalar_at (rsi_series st) (-1)) (\<lambda>r.
     bindE (scalar_at (smoothed_rsi st) (-1)) (\<lambda>s.
     Inr \<lparr> v_rsi = r, v_smoothed_rsi = s \<rparr>))"

record rsi_analysis =
  condition :: signal
  momentum :: signal
  trend :: "signal option"

definition rsi_trend :: "cell list \<Rightarrow> signal option" where
  "rsi_trend sm =
     (let recent_rsi = drop (length sm - 5) sm
      in if length recent_rsi \<ge> 5 then
           (if cell_gt (last recent_rsi) (hd recent_rsi) then Some RISING else Some FALLING)
         else None)"

definition RSI_analyze :: "rsi \<Rightarrow> error + rsi_values \<times> rsi_analysis" where
  "RSI_analyze st =
     bindE (RSI_get_current_values st) (\<lambda>values.
       (let current_rsi = v_smoothed_rsi values
        in Inr (values,
             \<lparr> condition =
                 (if flt_ge current_rsi (Fin (upper_limit st)) then OVERBOUGHT
                  else if flt_le current_rsi (Fin (lower_limit st)) then OVERSOLD
                  else NEUTRAL),
               momentum =
                 (if flt_gt current_rsi (Fin (middle_limit st)) then BULLISH else BEARISH),
               trend = rsi_trend (smoothed_rsi st) \<rparr>)))"

subsection \<open>Divergence detection\<close>

text \<open>
  A peak of a sliced series is a row whose value equals the centered rolling maximum of
  the slice; \<^verbatim>\<open>s[s.rolling(w, center=True).max() == s].dropna()\<close> keeps those rows with
  their labels.
\<close>

type_synonym series = "(nat \<times> cell) list"

definition extrema ::
  "(int \<Rightarrow> bool \<Rightarrow> cell list \<Rightarrow> error + cell list) \<Rightarrow> int \<Rightarrow> series \<Rightarrow> error + series" where
  "extrema extremum peak_window s =
     bindE (extremum peak_window True (map snd s)) (\<lambda>ext.
       Inr (filter (\<lambda>(l, v). v \<noteq> None)
              (map snd (filter (\<lambda>(e, lv). cell_eq e (snd lv)) (zip ext s)))))"

text \<open>
  \<^verbatim>\<open>index.get_loc(key, method='nearest')\<close> on an increasing index: the position of the
  label closest to the key, the larger label on a tie; \<^verbatim>\<open>KeyError\<close> on an empty index.
\<close>

definition dist :: "nat \<Rightarrow> nat \<Rightarrow> nat" where
  "dist a b = (if a \<le> b then b - a else a - b)"

fun nearest_from :: "nat list \<Rightarrow> nat \<Rightarrow> nat \<Rightarrow> nat \<Rightarrow> nat \<Rightarrow> nat" where
  "nearest_from [] key pos best best_dist = best"
| "nearest_from (l # ls) key pos best best_dist =
     (if dist l key \<le> best_dist then nearest_from ls key (pos + 1) pos (dist l key)
      else nearest_from ls key (pos + 1) best best_dist)"

definition get_loc_nearest :: "nat list \<Rightarrow> nat \<Rightarrow> error + nat" where
  "get_loc_nearest labels key =
     (case labels of
        [] \<Rightarrow> Inl KeyError
      | l # ls \<Rightarrow> Inr (nearest_from ls key 1 0 (dist l key)))"

text \<open>
  \<^verbatim>\<open>s[k]\<close> with an integer \<open>k\<close> on a series whose index is made of integers looks \<open>k\<close>
  up among the labels, not among the positions, and raises \<^verbatim>\<open>KeyError\<close> when no row
  has that label.
\<close>

definition getitem :: "series \<Rightarrow> nat \<Rightarrow> error + cell" where
  "getitem s k = (case map_of s k of None \<Rightarrow> Inl KeyError | Some v \<Rightarrow> Inr v)"

text \<open>The lookup the source writes for the RSI extremum that corresponds to a price
  extremum: \<^verbatim>\<open>rsi_peaks[rsi_peaks.index.get_loc(price_label, method='nearest')]\<close>.\<close>

definition corresponding :: "series \<Rightarrow> nat \<Rightarrow> error + cell" where
  "corresponding s price_label =
     bindE (get_loc_nearest (map fst s) price_label) (\<lambda>loc. getitem s loc)"

record divergence =
  bullish_divergence :: bool
  bearish_divergence :: bool
  description :: string

definition no_divergence :: divergence where
  "no_divergence =
     \<lparr> bullish_divergence = False, bearish_divergence = False,
       description = ''No divergence detected'' \<rparr>"

text \<open>One of the two checks of \<^verbatim>\<open>get_divergence\<close>: \<open>True\<close> when the check sets its flag
  and returns. \<open>beyond a b\<close> is \<open>a > b\<close> for the peaks and \<open>a < b\<close> for the troughs.\<close>

definition check_pair :: "(cell \<Rightarrow> cell \<Rightarrow> bool) \<Rightarrow> series \<Rightarrow> series \<Rightarrow> error + bool" where
  "check_pair beyond price_points rsi_points =
     (if length price_points \<ge> 2 \<and> length rsi_points \<ge> 2 then
        (let last_price = fst (last price_points);
             prev_price = fst (last (butlast price_points))
         in bindE (corresponding rsi_points last_price) (\<lambda>last_rsi.
            bindE (corresponding rsi_points prev_price) (\<lambda>prev_rsi.
            Inr (beyond (snd (last price_points)) (snd (last (butlast price_points)))
                 \<and> beyond prev_rsi last_rsi))))
      else Inr False)"

definition cell_lt :: "cell \<Rightarrow> cell \<Rightarrow> bool" where
  "cell_lt a b = cell_gt b a"

definition get_divergence :: "dataframe \<Rightarrow> rsi \<Rightarrow> nat \<Rightarrow> int \<Rightarrow> error + divergence option" where
  "get_divergence df st lookback peak_window =
     (if nrows df < lookback then Inr None
      else
        bindE (getcol df ''close'') (\<lambda>c.
        (let recent_prices = iloc_tail (indexed c) lookback;
             recent_rsi = iloc_tail (indexed (smoothed_rsi st)) lookback
         in bindE (extrema rolling_max peak_window recent_prices) (\<lambda>price_peaks.
            bindE (extrema rolling_min peak_window recent_prices) (\<lambda>price_troughs.
            bindE (extrema rolling_max peak_window recent_rsi) (\<lambda>rsi_peaks.
            bindE (extrema rolling_min peak_window recent_rsi) (\<lambda>rsi_troughs.
            bindE (check_pair cell_gt price_peaks rsi_peaks) (\<lambda>bearish.
              if bearish then
                Inr (Some (no_divergence
                  \<lparr> bearish_divergence := True,
                    description :=
                      ''Bearish divergence: Price making higher highs, RSI making lower highs'' \<rparr>))
              else
                bindE (check_pair cell_lt price_troughs rsi_troughs) (\<lambda>bullish.
                  if bullish then
                    Inr (Some (no_divergence
                      \<lparr> bullish_divergence := True,
                        description :=
                          ''Bullish divergence: Price making lower lows, RSI making higher lows'' \<rparr>))
                  else Inr (Some no_divergence))))))))))"

section \<open>Example data\<close>

text \<open>Bars whose four prices coincide, from a list of closes, for the concrete runs
  below.\<close>

definition flat_bar :: "int \<Rightarrow> real \<Rightarrow> bar" where
  "flat_bar t c = \<lparr> timestamp = t, open' = c, high = c, low = c, close = c, volume = 1 \<rparr>"

definition bars_of :: "real list \<Rightarrow> bar list" where
  "bars_of cs = map2 flat_bar (map int [0..<length cs]) cs"

text \<open>Thirty closes that never fall, with two plateaus of three bars (rows 17 to 19 and
  22 to 24), and thirty closes that rise at every bar.\<close>

definition staircase_closes :: "real list" where
  "staircase_closes =
     [1, 2, 3, 4, 5, 6, 7, 8, 9, 10, 11, 12, 13, 14, 15, 16, 17, 18, 18, 18,
      19, 20, 21, 21, 21, 22, 23, 24, 25, 26]"

definition rising_closes :: "real list" where
  "rising_closes =
     [1, 2, 3, 4, 5, 6, 7, 8, 9, 10, 11, 12, 13, 14, 15, 16, 17, 18, 19, 20,
      21, 22, 23, 24, 25, 26, 27, 28, 29, 30]"

section \<open>The specification's wording of two MaCrossEngine results\<close>

text \<open>
  The market structure as the specification words it: three indicators (fast against
  slow, slow against long, price against long), each \<open>+1\<close> when its difference, the first
  value minus the second, is strictly positive and \<open>-1\<close> otherwise, weighted 0.3, 0.3 and
  0.4; the score is compared with the thresholds 0.5, -0.5 and 0. The averages are cells
  of the three series: a difference with a NaN operand is NaN and not positive.
\<close>

definition spec_indicator :: "cell \<Rightarrow> cell \<Rightarrow> real" where
  "spec_indicator a b =
     (case (a, b) of (Some x, Some y) \<Rightarrow> (if 0 < x - y then 1 else - 1) | _ \<Rightarrow> - 1)"

definition spec_score :: "real \<Rightarrow> cell \<Rightarrow> cell \<Rightarrow> cell \<Rightarrow> real" where
  "spec_score price fast slow long =
     0.3 * spec_indicator fast slow
   + 0.3 * spec_indicator slow long
   + 0.4 * spec_indicator (Some price) long"

definition spec_structure :: "real \<Rightarrow> signal" where
  "spec_structure score =
     (if score > 0.5 then STRONG_BULLISH
      else if score < - 0.5 then STRONG_BEARISH
      else if score > 0 then BULLISH_BIAS
      else BEARISH_BIAS)"

text \<open>A cell that is NaN, zero or a positive number; and bars none of whose closes is
  negative.\<close>

definition not_negative :: "cell \<Rightarrow> bool" where
  "not_negative c = (case c of None \<Rightarrow> True | Some x \<Rightarrow> 0 \<le> x)"

definition closes_not_negative :: "bar list \<Rightarrow> bool" where
  "closes_not_negative bars = list_all (\<lambda>b. 0 \<le> close b) bars"

text \<open>
  The cross history as the specification words it: over the rows of the trailing
  \<open>lookback\<close> window, a change of the faster-above-slower flag from false to true is a
  golden cross and a change from true to false is a death cross; the most recent of each
  is reported.
\<close>

definition spec_transitions :: "bool list \<Rightarrow> (nat \<times> bool \<times> bool) list" where
  "spec_transitions flags = zip [1..<length flags] (zip (butlast flags) (tl flags))"

definition spec_cross_events :: "cell list \<Rightarrow> cell list \<Rightarrow> nat \<Rightarrow> cross_pair" where
  "spec_cross_events faster slower lookback =
     (let flags = map2 cell_gt faster slower;
          recent = filter (\<lambda>(i, pc). length flags \<le> i + lookback) (spec_transitions flags);
          golden = filter (\<lambda>(i, p, c). \<not> p \<and> c) recent;
          death = filter (\<lambda>(i, p, c). p \<and> \<not> c) recent
      in \<lparr> last_golden_cross = last_label golden, last_death_cross = last_label death \<rparr>)"

section \<open>The specification's wording of the recent fractal sequence\<close>

text \<open>The column that \<^verbatim>\<open>calculate\<close> leaves in the DataFrame for a half-window \<open>n\<close>: the
  entry of the source column where it equals the centered rolling extremum over
  \<open>2n + 1\<close> rows, NaN elsewhere.\<close>

definition fractal_flags :: "(real list \<Rightarrow> real) \<Rightarrow> int \<Rightarrow> cell list \<Rightarrow> cell list" where
  "fractal_flags f n xs = where_equal xs (roll f (nat (2 * n + 1)) True xs)"

text \<open>
  The sequence as the specification words it: the bars before the most recent one are
  visited backward (the last index is left out), a bar contributes \<open>up\<close> when it is an
  up-fractal, else \<open>down\<close> when it is a down-fractal, the first ten tokens are kept and the
  list is padded to ten entries with \<open>none\<close>. Dominance names the token that is strictly
  more frequent.
\<close>

definition spec_token :: "cell \<Rightarrow> cell \<Rightarrow> string option" where
  "spec_token u d = (if u \<noteq> None then Some ''up'' else if d \<noteq> None then Some ''down'' else None)"

definition spec_recent_sequence :: "cell list \<Rightarrow> cell list \<Rightarrow> string list" where
  "spec_recent_sequence up down =
     (let tokens = map2 spec_token up down;
          found = take 10 (List.map_filter id (rev (butlast tokens)))
      in found @ replicate (10 - length found) ''none'')"

definition spec_dominance :: "string list \<Rightarrow> string" where
  "spec_dominance tokens =
     (if count_list tokens ''up'' > count_list tokens ''down''
        then ''UP fractals dominate recent price action''
      else if count_list tokens ''down'' > count_list tokens ''up''
        then ''DOWN fractals dominate recent price action''
      else ''No clear dominance in recent fractals'')"

text \<open>The token of the row that the source's loop reads at step \<open>i\<close> (position \<open>-i\<close>).\<close>

definition tok_at :: "cell list \<Rightarrow> cell list \<Rightarrow> nat \<Rightarrow> string option" where
  "tok_at up down i = spec_token (up ! (length up - i)) (down ! (length up - i))"

section \<open>The specification's wording of the bearish divergence\<close>

text \<open>
  Bearish divergence as the specification words it: both peak lists hold at least two
  entries, the two most recent price peaks are strictly increasing, and the values of
  the RSI peaks at the labels nearest to those two price peaks are strictly decreasing.
\<close>

definition nearest_value :: "series \<Rightarrow> nat \<Rightarrow> cell" where
  "nearest_value s label =
     (case s of
        [] \<Rightarrow> None
      | (l, v) # rest \<Rightarrow> snd (s ! nearest_from (map fst rest) label 1 0 (dist l label)))"

definition spec_bearish :: "series \<Rightarrow> series \<Rightarrow> bool" where
  "spec_bearish price_peaks rsi_peaks \<longleftrightarrow>
     2 \<le> length price_peaks \<and> 2 \<le> length rsi_peaks \<and>
     cell_gt (snd (last price_peaks)) (snd (last (butlast price_peaks))) \<and>
     cell_gt (nearest_value rsi_peaks (fst (last (butlast price_peaks))))
             (nearest_value rsi_peaks (fst (last price_peaks)))"

text \<open>A series all of whose entries are positive numbers.\<close>

definition positive_cells :: "cell list \<Rightarrow> bool" where
  "positive_cells ys \<longleftrightarrow> list_all (\<lambda>y. case y of None \<Rightarrow> False | Some v \<Rightarrow> 0 < v) ys"

section \<open>An engine run on the shared bar table\<close>

text \<open>\<^verbatim>\<open>main.py\<close> builds one DataFrame and hands the same object to the four constructors,
  then calls \<^verbatim>\<open>analyze\<close> on each engine. A run takes the table as it is before the
  constructor is called and returns it as it is after \<^verbatim>\<open>analyze\<close>, with the result.
  \<^verbatim>\<open>Ichimoku\<close>, \<^verbatim>\<open>RSI\<close> and \<^verbatim>\<open>MACross\<close> keep a reference (\<^verbatim>\<open>self.df = df\<close>), read columns of it
  and assign only to attributes of the engine, so the table they leave is the one they
  were given. \<^verbatim>\<open>WilliamsFractals.calculate\<close> assigns to \<^verbatim>\<open>self.df['fractal_up']\<close> and
  \<^verbatim>\<open>self.df['fractal_down']\<close>: the table it leaves is the one returned by
  \<open>WilliamsFractals_init\<close>.\<close>

definition Ichimoku_run ::
  "dataframe \<Rightarrow> int \<Rightarrow> int \<Rightarrow> int \<Rightarrow> int \<Rightarrow> real
     \<Rightarrow> error + dataframe \<times> ichimoku_values \<times> ichimoku_analysis" where
  "Ichimoku_run df tp kp sp d current_price =
     bindE (Ichimoku_init df tp kp sp d) (\<lambda>st.
     bindE (Ichimoku_analyze st current_price) (\<lambda>r. Inr (df, r)))"

definition RSI_run ::
  "dataframe \<Rightarrow> int \<Rightarrow> string \<Rightarrow> int \<Rightarrow> real \<Rightarrow> real \<Rightarrow> real
     \<Rightarrow> error + dataframe \<times> rsi_values \<times> rsi_analysis" where
  "RSI_run df n ty sn upper middle lower =
     bindE (RSI_init df n ty sn upper middle lower) (\<lambda>st.
     bindE (RSI_analyze st) (\<lambda>r. Inr (df, r)))"

definition WilliamsFractals_run ::
  "dataframe \<Rightarrow> int \<Rightarrow> real \<Rightarrow> error + dataframe \<times> fractals \<times> fractal_analysis" where
  "WilliamsFractals_run df n current_price =
     bindE (WilliamsFractals_init df n) (\<lambda>(df', st).
     bindE (WilliamsFractals_analyze df' st current_price) (\<lambda>r. Inr (df', r)))"

definition MACross_run ::
  "dataframe \<Rightarrow> int list \<Rightarrow> int list \<Rightarrow> string \<Rightarrow> real
     \<Rightarrow> error + dataframe \<times> macross_values \<times> macross_analysis" where
  "MACross_run df fast_periods slow_periods ty current_price =
     bindE (MACross_init df fast_periods slow_periods ty) (\<lambda>st.
     bindE (MACross_analyze st current_price) (\<lambda>r. Inr (df, r)))"

text \<open>The six columns of the ingested bars.\<close>

definition ohlcv_columns :: "string set" where
  "ohlcv_columns = {''timestamp'', ''open'', ''high'', ''low'', ''close'', ''volume''}"

section \<open>Basic facts\<close>

lemma bindE_Inr: "bindE m f = Inr y \<longleftrightarrow> (\<exists>x. m = Inr x \<and> f x = Inr y)"
  by (cases m) (simp_all add: bindE_def)

lemma bindE_Inl: "bindE m f = Inl e \<longleftrightarrow> (m = Inl e \<or> (\<exists>x. m = Inr x \<and> f x = Inl e))"
  by (cases m) (simp_all add: bindE_def)

lemma bindE_simps [simp]: "bindE (Inr x) f = f x" "bindE (Inl e) f = Inl e"
  by (simp_all add: bindE_def)

lemma length_present_le: "length (present win) \<le> length win"
  by (simp add: present_def)

lemma aggregate_short: "length win < w \<Longrightarrow> aggregate f w win = None"
  using length_present_le [of win] by (simp add: aggregate_def Let_def)

lemma length_roll [simp]: "length (roll f w c xs) = length xs"
  by (simp add: roll_def)

lemma roll_nth: "i < length xs \<Longrightarrow> roll f w c xs ! i = aggregate f w (window_at w (center_offset w c) xs i)"
  by (simp add: roll_def)

lemma length_window_at: "length (window_at w off xs i) = min (i + 1 + off) (length xs) - (i + 1 + off - w)"
  by (auto simp add: window_at_def Let_def)

lemma roll_trailing_head: "i < length xs \<Longrightarrow> i + 1 < w \<Longrightarrow> roll f w False xs ! i = None"
  by (simp add: roll_nth aggregate_short length_window_at center_offset_def)

lemma roll_centered_first: "0 < n \<Longrightarrow> i < length xs \<Longrightarrow> i < n \<Longrightarrow> roll f (2 * n + 1) True xs ! i = None"
  by (simp add: roll_nth center_offset_def) (rule aggregate_short, simp add: length_window_at)

lemma roll_centered_last: "i < length xs \<Longrightarrow> length xs \<le> i + n \<Longrightarrow> roll f (2 * n + 1) True xs ! i = None"
  by (simp add: roll_nth center_offset_def) (rule aggregate_short, simp add: length_window_at)

lemma rolling_Inr: "rolling f w c xs = Inr ys \<Longrightarrow> 0 \<le> w \<and> ys = roll f (nat w) c xs"
  by (auto simp: rolling_def split: if_splits)

lemma length_series_add [simp]: "length (series_add xs ys) = min (length xs) (length ys)"
  by (simp add: series_add_def)

lemma length_series_half [simp]: "length (series_half xs) = length xs"
  by (simp add: series_half_def)

lemma series_half_nth_None: "i < length xs \<Longrightarrow> xs ! i = None \<Longrightarrow> series_half xs ! i = None"
  by (simp add: series_half_def)

lemma series_add_nth_None:
  "i < length xs \<Longrightarrow> i < length ys \<Longrightarrow> xs ! i = None \<or> ys ! i = None \<Longrightarrow> series_add xs ys ! i = None"
  by (auto simp add: series_add_def cell_add_def split: option.splits)

lemma rolling_head_None:
  "rolling f w False xs = Inr ys \<Longrightarrow> i < length ys \<Longrightarrow> int i + 1 < w \<Longrightarrow> ys ! i = None"
  by (auto simp: rolling_def split: if_splits intro!: roll_trailing_head)

lemma rolling_few_None:
  "rolling f w c xs = Inr ys \<Longrightarrow> i < length ys \<Longrightarrow>
   length (present (window_at (nat w) (center_offset (nat w) c) xs i)) < nat w \<Longrightarrow> ys ! i = None"
  by (auto simp: rolling_def roll_nth aggregate_def Let_def split: if_splits)

lemma midline_head_None:
  assumes "midline df w = Inr m" "i < length m" "int i + 1 < w"
  shows "m ! i = None"
proof -
  from assms(1) obtain hi high_w lo low_w where
    h: "rolling_max w False hi = Inr high_w" and l: "rolling_min w False lo = Inr low_w"
    and m: "m = series_half (series_add high_w low_w)"
    by (auto simp: midline_def bindE_Inr)
  from assms(2) m have i: "i < length high_w" "i < length low_w" by simp_all
  from h i(1) assms(3) have "high_w ! i = None"
    unfolding rolling_max_def by (rule rolling_head_None)
  with i show ?thesis
    unfolding m by (intro series_half_nth_None series_add_nth_None) simp_all
qed

lemma Ichimoku_init_InrD:
  "Ichimoku_init df tp kp sp d = Inr st \<Longrightarrow>
     midline df tp = Inr (tenkan st) \<and> midline df kp = Inr (kijun st) \<and>
     midline df sp = Inr (senkou_span_b st) \<and>
     senkou_span_a st = series_half (series_add (tenkan st) (kijun st)) \<and> displacement st = d"
  unfolding Ichimoku_init_def
  apply (cases "midline df tp"; cases "midline df kp"; cases "midline df sp")
         apply simp_all
  apply (erule subst)
  apply simp
  done

lemma Ichimoku_lines_head_None:
  assumes "Ichimoku_init df tp kp sp d = Inr st"
  shows "i < length (tenkan st) \<Longrightarrow> int i + 1 < tp \<Longrightarrow> tenkan st ! i = None"
    and "i < length (kijun st) \<Longrightarrow> int i + 1 < kp \<Longrightarrow> kijun st ! i = None"
    and "i < length (senkou_span_a st) \<Longrightarrow> int i + 1 < tp \<or> int i + 1 < kp \<Longrightarrow> senkou_span_a st ! i = None"
    and "i < length (senkou_span_b st) \<Longrightarrow> int i + 1 < sp \<Longrightarrow> senkou_span_b st ! i = None"
proof -
  from Ichimoku_init_InrD [OF assms] have
    tk: "midline df tp = Inr (tenkan st)" and kj: "midline df kp = Inr (kijun st)"
    and sb: "midline df sp = Inr (senkou_span_b st)"
    and sa: "senkou_span_a st = series_half (series_add (tenkan st) (kijun st))"
    by simp_all
  show "i < length (tenkan st) \<Longrightarrow> int i + 1 < tp \<Longrightarrow> tenkan st ! i = None"
    by (rule midline_head_None [OF tk])
  show "i < length (kijun st) \<Longrightarrow> int i + 1 < kp \<Longrightarrow> kijun st ! i = None"
    by (rule midline_head_None [OF kj])
  show "i < length (senkou_span_b st) \<Longrightarrow> int i + 1 < sp \<Longrightarrow> senkou_span_b st ! i = None"
    by (rule midline_head_None [OF sb])
  show "i < length (senkou_span_a st) \<Longrightarrow> int i + 1 < tp \<or> int i + 1 < kp \<Longrightarrow> senkou_span_a st ! i = None"
  proof -
    assume i: "i < length (senkou_span_a st)" and w: "int i + 1 < tp \<or> int i + 1 < kp"
    from i have il: "i < length (tenkan st)" "i < length (kijun st)" by (simp_all add: sa)
    from w have "tenkan st ! i = None \<or> kijun st ! i = None"
    proof
      assume "int i + 1 < tp"
      with il(1) have "tenkan st ! i = None" by (rule midline_head_None [OF tk])
      then show ?thesis ..
    next
      assume "int i + 1 < kp"
      with il(2) have "kijun st ! i = None" by (rule midline_head_None [OF kj])
      then show ?thesis ..
    qed
    with il have "series_add (tenkan st) (kijun st) ! i = None"
      by (intro series_add_nth_None)
    moreover from il have "i < length (series_add (tenkan st) (kijun st))" by simp
    ultimately show ?thesis
      unfolding sa by (intro series_half_nth_None)
  qed
qed




lemma moving_average_SMA_head_None:
  assumes "moving_average df ''SMA'' p = Inr m" "i < length m" "int i + 1 < p"
  shows "m ! i = None"
proof -
  from assms(1) obtain c where "rolling window_mean p False c = Inr m"
    by (cases "getcol df ''close''") (simp_all add: moving_average_def rolling_mean_def)
  from this assms(2,3) show ?thesis by (rule rolling_head_None)
qed

lemma MACross_init_InrD:
  "MACross_init df fps sps ty = Inr st \<Longrightarrow>
    py_index fps 0 = Inr (fast_ma_period st) \<and> py_index sps 0 = Inr (slow_ma_period st) \<and>
    py_index sps 1 = Inr (long_ma_period st) \<and>
    moving_average df ty (fast_ma_period st) = Inr (ma_fast st) \<and>
    moving_average df ty (slow_ma_period st) = Inr (ma_slow st) \<and>
    moving_average df ty (long_ma_period st) = Inr (ma_long st) \<and>
    ma_type st = ty"
  unfolding MACross_init_def
  apply (cases "py_index fps 0"; simp)
  apply (cases "py_index sps 0"; simp)
  apply (cases "py_index sps 1"; simp)
  subgoal for fp sp lp
    apply (cases "moving_average df ty fp"; simp)
    apply (cases "moving_average df ty sp"; simp)
    apply (cases "moving_average df ty lp"; simp)
    apply (erule subst)
    apply simp
    done
  done

lemma MACross_SMA_head_None:
  assumes "MACross_init df fps sps ''SMA'' = Inr st"
  shows "i < length (ma_fast st) \<Longrightarrow> int i + 1 < fast_ma_period st \<Longrightarrow> ma_fast st ! i = None"
    and "i < length (ma_slow st) \<Longrightarrow> int i + 1 < slow_ma_period st \<Longrightarrow> ma_slow st ! i = None"
    and "i < length (ma_long st) \<Longrightarrow> int i + 1 < long_ma_period st \<Longrightarrow> ma_long st ! i = None"
proof -
  from MACross_init_InrD [OF assms] have
    f: "moving_average df ''SMA'' (fast_ma_period st) = Inr (ma_fast st)" and
    s: "moving_average df ''SMA'' (slow_ma_period st) = Inr (ma_slow st)" and
    l: "moving_average df ''SMA'' (long_ma_period st) = Inr (ma_long st)"
    by simp_all
  show "i < length (ma_fast st) \<Longrightarrow> int i + 1 < fast_ma_period st \<Longrightarrow> ma_fast st ! i = None"
    by (rule moving_average_SMA_head_None [OF f])
  show "i < length (ma_slow st) \<Longrightarrow> int i + 1 < slow_ma_period st \<Longrightarrow> ma_slow st ! i = None"
    by (rule moving_average_SMA_head_None [OF s])
  show "i < length (ma_long st) \<Longrightarrow> int i + 1 < long_ma_period st \<Longrightarrow> ma_long st ! i = None"
    by (rule moving_average_SMA_head_None [OF l])
qed

lemma getcol_mk_df:
  "getcol (mk_df bars) ''high'' = Inr (column_of high bars)"
  "getcol (mk_df bars) ''low'' = Inr (column_of low bars)"
  "getcol (mk_df bars) ''close'' = Inr (column_of close bars)"
  by (simp_all add: getcol_def mk_df_def)

lemma length_column_of [simp]: "length (column_of f bars) = length bars"
  by (simp add: column_of_def)

lemma length_rolling: "rolling f w c xs = Inr ys \<Longrightarrow> length ys = length xs"
  by (auto simp: rolling_def split: if_splits)

lemma length_midline_mk_df: "midline (mk_df bars) w = Inr m \<Longrightarrow> length m = length bars"
  unfolding midline_def getcol_mk_df bindE_simps
  apply (cases "rolling_max w False (column_of high bars)"; simp)
  apply (cases "rolling_min w False (column_of low bars)"; simp)
  apply (auto simp: rolling_max_def rolling_min_def dest!: length_rolling)
  done

lemma length_moving_average_SMA_mk_df:
  "moving_average (mk_df bars) ''SMA'' p = Inr m \<Longrightarrow> length m = length bars"
  unfolding moving_average_def getcol_mk_df bindE_simps
  by (auto simp: rolling_mean_def dest!: length_rolling)

lemma not_isl_Inr: "\<not> isl m \<Longrightarrow> \<exists>x. m = Inr x"
  by (cases m) simp_all

section \<open>Windowed aggregates without enough history\<close>

text \<open>
  C5. A windowed aggregate (rolling max, min or mean; trailing or centered) is NaN at every
  position whose window holds fewer than \<open>w\<close> values, and a trailing one in particular
  at the first \<open>w - 1\<close> positions: never \<open>0\<close> and never a value computed from a shorter
  window. Hence, on every bar series, each Ichimoku line is NaN at the positions before
  its period is filled (Senkou span A before the longer of the Tenkan and Kijun periods
  is), and so is each SMA-mode moving average.
\<close>

theorem windowed_aggregates_no_value:
  "(rolling_max w c xs = Inr ys \<longrightarrow> i < length xs \<longrightarrow>
      length (present (window_at (nat w) (center_offset (nat w) c) xs i)) < nat w \<longrightarrow> ys ! i = None) \<and>
   (rolling_min w c xs = Inr ys \<longrightarrow> i < length xs \<longrightarrow>
      length (present (window_at (nat w) (center_offset (nat w) c) xs i)) < nat w \<longrightarrow> ys ! i = None) \<and>
   (rolling_mean w c xs = Inr ys \<longrightarrow> i < length xs \<longrightarrow>
      length (present (window_at (nat w) (center_offset (nat w) c) xs i)) < nat w \<longrightarrow> ys ! i = None) \<and>
   (rolling_max w False xs = Inr ys \<longrightarrow> i < length xs \<longrightarrow> int i + 1 < w \<longrightarrow> ys ! i = None) \<and>
   (rolling_min w False xs = Inr ys \<longrightarrow> i < length xs \<longrightarrow> int i + 1 < w \<longrightarrow> ys ! i = None) \<and>
   (rolling_mean w False xs = Inr ys \<longrightarrow> i < length xs \<longrightarrow> int i + 1 < w \<longrightarrow> ys ! i = None) \<and>
   (Ichimoku_init (mk_df bars) tp kp sp d = Inr st \<longrightarrow> i < length bars \<longrightarrow>
      (int i + 1 < tp \<longrightarrow> tenkan st ! i = None) \<and>
      (int i + 1 < kp \<longrightarrow> kijun st ! i = None) \<and>
      (int i + 1 < tp \<or> int i + 1 < kp \<longrightarrow> senkou_span_a st ! i = None) \<and>
      (int i + 1 < sp \<longrightarrow> senkou_span_b st ! i = None)) \<and>
   (MACross_init (mk_df bars) fast_periods slow_periods ''SMA'' = Inr ma \<longrightarrow> i < length bars \<longrightarrow>
      (int i + 1 < fast_ma_period ma \<longrightarrow> ma_fast ma ! i = None) \<and>
      (int i + 1 < slow_ma_period ma \<longrightarrow> ma_slow ma ! i = None) \<and>
      (int i + 1 < long_ma_period ma \<longrightarrow> ma_long ma ! i = None))"
proof -
  have few: "ys ! i = None"
    if "rolling f w c xs = Inr ys" "i < length xs"
      "length (present (window_at (nat w) (center_offset (nat w) c) xs i)) < nat w" for f
    using that length_rolling [OF that(1)] by (auto intro: rolling_few_None)
  have head: "ys ! i = None"
    if "rolling f w False xs = Inr ys" "i < length xs" "int i + 1 < w" for f
    using that length_rolling [OF that(1)] by (auto intro: rolling_head_None)
  have ichi: "(int i + 1 < tp \<longrightarrow> tenkan st ! i = None) \<and>
      (int i + 1 < kp \<longrightarrow> kijun st ! i = None) \<and>
      (int i + 1 < tp \<or> int i + 1 < kp \<longrightarrow> senkou_span_a st ! i = None) \<and>
      (int i + 1 < sp \<longrightarrow> senkou_span_b st ! i = None)"
    if init: "Ichimoku_init (mk_df bars) tp kp sp d = Inr st" and i: "i < length bars"
  proof -
    note D = Ichimoku_init_InrD [OF init]
    from D have lt: "length (tenkan st) = length bars" and lk: "length (kijun st) = length bars"
      and lb: "length (senkou_span_b st) = length bars"
      by (blast intro: length_midline_mk_df)+
    from D have "senkou_span_a st = series_half (series_add (tenkan st) (kijun st))" by blast
    with lt lk have la: "length (senkou_span_a st) = length bars" by simp
    show ?thesis
      using Ichimoku_lines_head_None [OF init, of i] i lt lk la lb by simp
  qed
  have mac: "(int i + 1 < fast_ma_period ma \<longrightarrow> ma_fast ma ! i = None) \<and>
      (int i + 1 < slow_ma_period ma \<longrightarrow> ma_slow ma ! i = None) \<and>
      (int i + 1 < long_ma_period ma \<longrightarrow> ma_long ma ! i = None)"
    if init: "MACross_init (mk_df bars) fast_periods slow_periods ''SMA'' = Inr ma" and i: "i < length bars"
  proof -
    note D = MACross_init_InrD [OF init]
    from D have "length (ma_fast ma) = length bars" "length (ma_slow ma) = length bars"
      "length (ma_long ma) = length bars"
      by (blast intro: length_moving_average_SMA_mk_df)+
    then show ?thesis
      using MACross_SMA_head_None [OF init, of i] i by simp
  qed
  show ?thesis
    unfolding rolling_max_def rolling_min_def rolling_mean_def
    using few head ichi mac by blast
qed

theorem windowed_aggregates_no_value_witness:
  "(\<exists>ys. rolling_max 3 False [Some 4, Some 2, Some 6] = Inr ys \<and> ys ! 1 = None) \<and>
   (\<exists>ys. rolling_min 3 False [Some 4, Some 2, Some 6] = Inr ys \<and> ys ! 1 = None) \<and>
   (\<exists>ys. rolling_mean 3 False [Some 4, Some 2, Some 6] = Inr ys \<and> ys ! 1 = None) \<and>
   (\<exists>st. Ichimoku_init (mk_df (bars_of [10, 11, 12])) 9 26 52 26 = Inr st \<and>
      tenkan st ! 2 = None \<and> kijun st ! 2 = None \<and> senkou_span_a st ! 2 = None \<and>
      senkou_span_b st ! 2 = None) \<and>
   (\<exists>ma. MACross_init (mk_df (bars_of [10, 11, 12])) [10, 50] [50, 200] ''SMA'' = Inr ma \<and>
      ma_fast ma ! 2 = None \<and> ma_slow ma ! 2 = None \<and> ma_long ma ! 2 = None)"
proof -
  let ?xs = "[Some 4, Some 2, Some (6::real)]"
  let ?bars = "bars_of [10, 11, 12]"
  have len: "length ?bars = 3" by (simp add: bars_of_def)
  have "\<not> isl (rolling_max 3 False ?xs)" by code_simp
  then obtain y1 where y1: "rolling_max 3 False ?xs = Inr y1" by (auto dest: not_isl_Inr)
  have "\<not> isl (rolling_min 3 False ?xs)" by code_simp
  then obtain y2 where y2: "rolling_min 3 False ?xs = Inr y2" by (auto dest: not_isl_Inr)
  have "\<not> isl (rolling_mean 3 False ?xs)" by code_simp
  then obtain y3 where y3: "rolling_mean 3 False ?xs = Inr y3" by (auto dest: not_isl_Inr)
  have "\<not> isl (Ichimoku_init (mk_df ?bars) 9 26 52 26)" by code_simp
  then obtain st where st: "Ichimoku_init (mk_df ?bars) 9 26 52 26 = Inr st"
    by (auto dest: not_isl_Inr)
  have "\<not> isl (MACross_init (mk_df ?bars) [10, 50] [50, 200] ''SMA'')" by code_simp
  then obtain ma where ma: "MACross_init (mk_df ?bars) [10, 50] [50, 200] ''SMA'' = Inr ma"
    by (auto dest: not_isl_Inr)
  from MACross_init_InrD [OF ma] have per:
    "fast_ma_period ma = 10" "slow_ma_period ma = 50" "long_ma_period ma = 200"
    by (simp_all add: py_index_def)
  note T1 = windowed_aggregates_no_value [where w = 3 and c = False and xs = ?xs and i = 1]
  note T2 = windowed_aggregates_no_value [where bars = ?bars and i = 2 and tp = 9 and kp = 26
      and sp = 52 and d = 26 and st = st and fast_periods = "[10, 50]"
      and slow_periods = "[50, 200]" and ma = ma]
  from T1 [where ys = y1] y1 have "y1 ! 1 = None" by simp
  moreover from T1 [where ys = y2] y2 have "y2 ! 1 = None" by simp
  moreover from T1 [where ys = y3] y3 have "y3 ! 1 = None" by simp
  moreover from T2 st len have "tenkan st ! 2 = None \<and> kijun st ! 2 = None \<and>
      senkou_span_a st ! 2 = None \<and> senkou_span_b st ! 2 = None" by simp
  moreover from T2 ma len per have
    "ma_fast ma ! 2 = None \<and> ma_slow ma ! 2 = None \<and> ma_long ma ! 2 = None" by simp
  ultimately show ?thesis using y1 y2 y3 st ma by blast
qed

section \<open>Ichimoku on a series no longer than the displacement\<close>

lemma scalar_at_last: "xs \<noteq> [] \<Longrightarrow> scalar_at xs (-1) = Inr (of_cell (last xs))"
  by (cases xs rule: rev_cases) (simp_all add: scalar_at_def iloc_def Let_def nth_append)

lemma displaced_short: "int (length xs) \<le> d \<Longrightarrow> displaced xs d = Inr None"
  by (simp add: displaced_def)

lemma Ichimoku_short_values:
  assumes init: "Ichimoku_init (mk_df bars) tp kp sp d = Inr st"
    and ne: "bars \<noteq> []" and short: "int (length bars) \<le> d"
  shows "Ichimoku_get_current_values st =
     Inr \<lparr> v_tenkan = of_cell (last (tenkan st)), v_kijun = of_cell (last (kijun st)),
           current_span_a = None, current_span_b = None,
           future_span_a = of_cell (last (senkou_span_a st)),
           future_span_b = of_cell (last (senkou_span_b st)) \<rparr>"
proof -
  note D = Ichimoku_init_InrD [OF init]
  from D have lt: "length (tenkan st) = length bars" and lk: "length (kijun st) = length bars"
    and lb: "length (senkou_span_b st) = length bars"
    by (blast intro: length_midline_mk_df)+
  from D have "senkou_span_a st = series_half (series_add (tenkan st) (kijun st))" by blast
  with lt lk have la: "length (senkou_span_a st) = length bars" by simp
  from D have d: "displacement st = d" by blast
  from ne lt lk la lb have nes: "tenkan st \<noteq> []" "kijun st \<noteq> []" "senkou_span_a st \<noteq> []"
    "senkou_span_b st \<noteq> []" by auto
  show ?thesis
    unfolding Ichimoku_get_current_values_def
    by (simp add: scalar_at_last nes displaced_short d la lb short)
qed

lemma Ichimoku_short_analyze:
  assumes "Ichimoku_init (mk_df bars) tp kp sp d = Inr st" "bars \<noteq> []" "int (length bars) \<le> d"
  shows "Ichimoku_analyze st current_price = Inl TypeError"
  unfolding Ichimoku_analyze_def Ichimoku_short_values [OF assms] by simp

text \<open>
  C3. On a series that is not empty and not longer than the displacement,
  \<^verbatim>\<open>get_current_values\<close> returns \<^verbatim>\<open>None\<close> for both current-cloud fields (lemma
  \<open>Ichimoku_short_values\<close>), and \<^verbatim>\<open>analyze\<close> then raises \<^verbatim>\<open>TypeError\<close> at
  \<^verbatim>\<open>max(None, None)\<close> instead of returning the remaining signals (lemma
  \<open>Ichimoku_short_analyze\<close>). The run below is three bars with the default periods
  9, 26, 52 and displacement 26.
\<close>

theorem ichimoku_short_series_analyze_raises:
  "\<exists>st v. Ichimoku_init (mk_df (bars_of [10, 11, 12])) 9 26 52 26 = Inr st \<and>
     Ichimoku_get_current_values st = Inr v \<and>
     current_span_a v = None \<and> current_span_b v = None \<and>
     Ichimoku_analyze st 12 = Inl TypeError"
proof -
  let ?bars = "bars_of [10, 11, 12]"
  have len: "length ?bars = 3" by (simp add: bars_of_def)
  have "\<not> isl (Ichimoku_init (mk_df ?bars) 9 26 52 26)" by code_simp
  then obtain st where st: "Ichimoku_init (mk_df ?bars) 9 26 52 26 = Inr st"
    by (auto dest: not_isl_Inr)
  from len have ne: "?bars \<noteq> []" by auto
  from len have short: "int (length ?bars) \<le> 26" by simp
  show ?thesis
    using st Ichimoku_short_values [OF st ne short] Ichimoku_short_analyze [OF st ne short]
    by (intro exI conjI) auto
qed

section \<open>Market structure\<close>

lemma MACross_analyze_InrD:
  "MACross_analyze st price = Inr (v, a) \<Longrightarrow>
     MACross_get_current_values st = Inr v \<and>
     market_structure a = analyze_market_structure price v"
  unfolding MACross_analyze_def
  by (cases "MACross_get_current_values st") auto

lemma sign_term_plain:
  "not_negative b \<Longrightarrow>
   sign_term (pct_of (flt_sub (of_cell a) (of_cell b)) (of_cell b)) = spec_indicator a b"
  by (cases a; cases b)
    (auto simp: sign_term_def pct_of_def flt_sub_def flt_gt_def flt_less_def spec_indicator_def
      not_negative_def inf_of_sign_def zero_less_divide_iff)

lemma scalar_at_InrD: "scalar_at xs (-1) = Inr t \<Longrightarrow> xs \<noteq> [] \<and> t = of_cell (last xs)"
  by (cases xs rule: rev_cases) (auto simp: scalar_at_def iloc_def Let_def)

lemma MACross_get_current_values_InrD:
  assumes "MACross_get_current_values st = Inr v"
  shows "ma_fast st \<noteq> [] \<and> ma_slow st \<noteq> [] \<and> ma_long st \<noteq> [] \<and>
         v_ma_fast v = of_cell (last (ma_fast st)) \<and>
         v_ma_slow v = of_cell (last (ma_slow st)) \<and>
         v_ma_long v = of_cell (last (ma_long st))"
proof -
  from assms obtain f where f: "scalar_at (ma_fast st) (-1) = Inr f"
    by (cases "scalar_at (ma_fast st) (-1)") (simp_all add: MACross_get_current_values_def)
  with assms obtain s where s: "scalar_at (ma_slow st) (-1) = Inr s"
    by (cases "scalar_at (ma_slow st) (-1)") (simp_all add: MACross_get_current_values_def)
  with assms f obtain l where l: "scalar_at (ma_long st) (-1) = Inr l"
    by (cases "scalar_at (ma_long st) (-1)") (simp_all add: MACross_get_current_values_def)
  from assms f s l have "v_ma_fast v = f" "v_ma_slow v = s" "v_ma_long v = l"
    by (auto simp: MACross_get_current_values_def)
  with scalar_at_InrD [OF f] scalar_at_InrD [OF s] scalar_at_InrD [OF l] show ?thesis by simp
qed

lemma market_structure_plain:
  assumes an: "MACross_analyze st price = Inr (v, a)"
    and slow: "not_negative (last (ma_slow st))" and long: "not_negative (last (ma_long st))"
  shows "market_structure a =
           spec_structure (spec_score price (last (ma_fast st)) (last (ma_slow st))
                             (last (ma_long st)))"
proof -
  from MACross_analyze_InrD [OF an] have gv: "MACross_get_current_values st = Inr v"
    and ms: "market_structure a = analyze_market_structure price v" by simp_all
  from MACross_get_current_values_InrD [OF gv] have v:
    "v_ma_fast v = of_cell (last (ma_fast st))" "v_ma_slow v = of_cell (last (ma_slow st))"
    "v_ma_long v = of_cell (last (ma_long st))" by simp_all
  have p: "Fin price = of_cell (Some price)" by simp
  have "weighted_score price v =
      spec_score price (last (ma_fast st)) (last (ma_slow st)) (last (ma_long st))"
    unfolding weighted_score_def Let_def v p spec_score_def
    by (simp only: sign_term_plain [OF slow] sign_term_plain [OF long])
  then show ?thesis
    by (simp add: ms analyze_market_structure_def spec_structure_def Let_def)
qed

lemma set_window_at: "set (window_at w off xs i) \<subseteq> set xs"
  unfolding window_at_def Let_def
  by (meson set_take_subset set_drop_subset subset_trans)

lemma window_mean_nonneg: "list_all (\<lambda>x. 0 \<le> x) ys \<Longrightarrow> 0 \<le> window_mean ys"
  by (simp add: window_mean_def list_all_iff sum_list_nonneg)

lemma aggregate_mean_not_negative:
  assumes "list_all not_negative win"
  shows "not_negative (aggregate window_mean w win)"
proof -
  from assms have "list_all (\<lambda>x. 0 \<le> x) (present win)"
    by (auto simp: present_def list_all_iff not_negative_def)
  then show ?thesis
    by (simp add: aggregate_def Let_def not_negative_def window_mean_nonneg)
qed

lemma roll_mean_not_negative:
  assumes "list_all not_negative xs"
  shows "list_all not_negative (roll window_mean w c xs)"
proof -
  have "not_negative (aggregate window_mean w (window_at w (center_offset w c) xs i))" for i
    using assms set_window_at [of w "center_offset w c" xs i]
    by (intro aggregate_mean_not_negative) (auto simp: list_all_iff)
  then show ?thesis by (simp add: roll_def list_all_iff)
qed

lemma ewm_from_not_negative:
  assumes "0 < alpha" "alpha \<le> 1"
  shows "0 \<le> a \<Longrightarrow> list_all (\<lambda>c. 0 \<le> c) cs \<Longrightarrow>
         list_all not_negative (ewm_from alpha (Some a) 1 (map Some cs))"
proof (induction cs arbitrary: a)
  case Nil
  then show ?case by simp
next
  case (Cons c cs)
  let ?a' = "if a \<noteq> c then ((1 - alpha) * a + alpha * c) / ((1 - alpha) + alpha) else a"
  from Cons.prems assms have "0 \<le> (1 - alpha) * a" "0 \<le> alpha * c" by simp_all
  then have "0 \<le> (1 - alpha) * a + alpha * c" by linarith
  with Cons.prems have pos: "0 \<le> ?a'" by simp
  from Cons.prems have "list_all (\<lambda>c. 0 \<le> c) cs" by simp
  from Cons.IH [OF pos this] pos show ?case
    by (simp add: not_negative_def Let_def)
qed

lemma ewm_mean_not_negative:
  assumes "0 < alpha" "alpha \<le> 1" "list_all (\<lambda>c. 0 \<le> c) cs"
  shows "list_all not_negative (ewm_mean alpha (map Some cs))"
proof (cases cs)
  case Nil
  then show ?thesis by (simp add: ewm_mean_def)
next
  case (Cons c rest)
  with assms(3) have c: "0 \<le> c" and r: "list_all (\<lambda>c. 0 \<le> c) rest" by simp_all
  from ewm_from_not_negative [OF assms(1,2) c r] c show ?thesis
    by (simp add: Cons ewm_mean_def not_negative_def)
qed

lemma column_of_as_map: "column_of f bars = map Some (map f bars)"
  by (simp add: column_of_def)

lemma moving_average_not_negative:
  assumes "moving_average (mk_df bars) ty p = Inr m" "closes_not_negative bars"
  shows "list_all not_negative m"
proof -
  let ?c = "column_of close bars"
  from assms(2) have nn: "list_all (\<lambda>c. 0 \<le> c) (map close bars)"
    by (simp add: closes_not_negative_def list_all_iff)
  then have cn: "list_all not_negative ?c"
    by (simp add: column_of_def list_all_iff not_negative_def)
  show ?thesis
  proof (cases "ty = ''SMA''")
    case True
    with assms(1) have "rolling window_mean p False ?c = Inr m"
      by (simp add: moving_average_def getcol_mk_df rolling_mean_def)
    then have "m = roll window_mean (nat p) False ?c" by (simp add: rolling_Inr)
    with cn show ?thesis by (simp add: roll_mean_not_negative)
  next
    case False
    with assms(1) have e: "ewm_span p ?c = Inr m"
      by (simp add: moving_average_def getcol_mk_df)
    then have p: "1 \<le> p" and m: "m = ewm_mean (2 / (real_of_int p + 1)) ?c"
      by (auto simp: ewm_span_def split: if_splits)
    from p have "0 < 2 / (real_of_int p + 1)" "2 / (real_of_int p + 1) \<le> 1" by simp_all
    from ewm_mean_not_negative [OF this nn] show ?thesis
      by (simp add: m column_of_as_map)
  qed
qed

lemma last_not_negative: "list_all not_negative m \<Longrightarrow> m \<noteq> [] \<Longrightarrow> not_negative (last m)"
  by (simp add: list_all_iff)

text \<open>
  C6, as amended. On every bar series none of whose closes is negative, and for every
  current price, the market-structure signal of \<^verbatim>\<open>analyze\<close> is the one selected by the
  weighted score of the three sign indicators, each \<open>+1\<close> when the plain difference (fast
  minus slow, slow minus long, price minus long) is strictly positive and \<open>-1\<close> otherwise,
  with the weights 0.3, 0.3 and 0.4: above 0.5 STRONG_BULLISH, below -0.5 STRONG_BEARISH,
  above 0 BULLISH_BIAS, and BEARISH_BIAS otherwise. The source takes the sign of the
  relative difference \<open>(a - b) / b * 100\<close>, which agrees with the sign of \<open>a - b\<close> when
  \<open>b\<close> is not negative (\<open>sign_term_plain\<close>); the averages of such bars are not negative
  (\<open>moving_average_not_negative\<close>).
\<close>

theorem market_structure_by_weighted_score:
  "MACross_init (mk_df bars) fast_periods slow_periods ty = Inr st \<Longrightarrow>
   closes_not_negative bars \<Longrightarrow>
   MACross_analyze st price = Inr (v, a) \<Longrightarrow>
   market_structure a =
     spec_structure (spec_score price (last (ma_fast st)) (last (ma_slow st)) (last (ma_long st)))"
proof -
  assume init: "MACross_init (mk_df bars) fast_periods slow_periods ty = Inr st"
    and nn: "closes_not_negative bars"
    and an: "MACross_analyze st price = Inr (v, a)"
  from MACross_analyze_InrD [OF an] have "MACross_get_current_values st = Inr v" by simp
  from MACross_get_current_values_InrD [OF this]
  have ne: "ma_slow st \<noteq> []" "ma_long st \<noteq> []" by simp_all
  note D = MACross_init_InrD [OF init]
  from D have s: "moving_average (mk_df bars) ty (slow_ma_period st) = Inr (ma_slow st)"
    and l: "moving_average (mk_df bars) ty (long_ma_period st) = Inr (ma_long st)"
    by simp_all
  from moving_average_not_negative [OF s nn] ne(1)
  have slow: "not_negative (last (ma_slow st))" by (rule last_not_negative)
  from moving_average_not_negative [OF l nn] ne(2)
  have long: "not_negative (last (ma_long st))" by (rule last_not_negative)
  from an slow long show ?thesis by (rule market_structure_plain)
qed

theorem market_structure_by_weighted_score_witness:
  "\<exists>st v1 a1 v2 a2 st' v3 a3.
     MACross_init (mk_df (bars_of [1, 2, 3, 4])) [1] [2, 3] ''SMA'' = Inr st \<and>
     closes_not_negative (bars_of [1, 2, 3, 4]) \<and>
     last (ma_fast st) = Some 4 \<and> last (ma_slow st) = Some (7 / 2) \<and>
     last (ma_long st) = Some 3 \<and>
     MACross_analyze st 5 = Inr (v1, a1) \<and> market_structure a1 = STRONG_BULLISH \<and>
     MACross_analyze st 2 = Inr (v2, a2) \<and> market_structure a2 = BULLISH_BIAS \<and>
     MACross_init (mk_df (bars_of [1, 2, 3, 4, 1, 1])) [2] [3, 4] ''SMA'' = Inr st' \<and>
     closes_not_negative (bars_of [1, 2, 3, 4, 1, 1]) \<and>
     last (ma_fast st') = Some 1 \<and> last (ma_slow st') = Some 2 \<and>
     last (ma_long st') = Some (9 / 4) \<and>
     MACross_analyze st' 3 = Inr (v3, a3) \<and> market_structure a3 = BEARISH_BIAS"
proof -
  let ?b = "bars_of [1, 2, 3, 4]"
  let ?init = "MACross_init (mk_df ?b) [1] [2, 3] ''SMA''"
  let ?b' = "bars_of [1, 2, 3, 4, 1, 1]"
  let ?init' = "MACross_init (mk_df ?b') [2] [3, 4] ''SMA''"
  have nn: "closes_not_negative ?b" by code_simp
  have nn': "closes_not_negative ?b'" by code_simp
  have "\<not> isl ?init" by code_simp
  then obtain st where st: "?init = Inr st" by (auto dest: not_isl_Inr)
  have "\<not> isl ?init'" by code_simp
  then obtain st' where st': "?init' = Inr st'" by (auto dest: not_isl_Inr)
  have "last (ma_fast (projr ?init)) = Some 4" "last (ma_slow (projr ?init)) = Some (7 / 2)"
    "last (ma_long (projr ?init)) = Some 3"
    by code_simp+
  with st have c: "last (ma_fast st) = Some 4" "last (ma_slow st) = Some (7 / 2)"
    "last (ma_long st) = Some 3" by simp_all
  have "last (ma_fast (projr ?init')) = Some 1" "last (ma_slow (projr ?init')) = Some 2"
    "last (ma_long (projr ?init')) = Some (9 / 4)"
    by code_simp+
  with st' have c': "last (ma_fast st') = Some 1" "last (ma_slow st') = Some 2"
    "last (ma_long st') = Some (9 / 4)" by simp_all
  have "\<not> isl (MACross_analyze (projr ?init) 5)" by code_simp
  with st obtain v1 a1 where 1: "MACross_analyze st 5 = Inr (v1, a1)"
    by (cases "MACross_analyze st 5") auto
  have "\<not> isl (MACross_analyze (projr ?init) 2)" by code_simp
  with st obtain v2 a2 where 2: "MACross_analyze st 2 = Inr (v2, a2)"
    by (cases "MACross_analyze st 2") auto
  have "\<not> isl (MACross_analyze (projr ?init') 3)" by code_simp
  with st' obtain v3 a3 where 3: "MACross_analyze st' 3 = Inr (v3, a3)"
    by (cases "MACross_analyze st' 3") auto
  have e1: "spec_structure (spec_score 5 (Some 4) (Some (7 / 2)) (Some 3)) = STRONG_BULLISH"
    by code_simp
  have e2: "spec_structure (spec_score 2 (Some 4) (Some (7 / 2)) (Some 3)) = BULLISH_BIAS"
    by code_simp
  have e3: "spec_structure (spec_score 3 (Some 1) (Some 2) (Some (9 / 4))) = BEARISH_BIAS"
    by code_simp
  from market_structure_by_weighted_score [OF st nn 1] c e1
  have m1: "market_structure a1 = STRONG_BULLISH" by simp
  from market_structure_by_weighted_score [OF st nn 2] c e2
  have m2: "market_structure a2 = BULLISH_BIAS" by simp
  from market_structure_by_weighted_score [OF st' nn' 3] c' e3
  have m3: "market_structure a3 = BEARISH_BIAS" by simp
  from st nn c 1 m1 2 m2 st' nn' c' 3 m3 show ?thesis by blast
qed

text \<open>
  Without the restriction the claim fails. Four bars with the closes -4, -3, -2, -1, the
  periods 1, 2 and 3 and the price -1/2: the averages at the last bar are -1, -3/2 and
  -2, so fast is above slow, slow above long and the price above long, and the
  specification's score is 1 (STRONG_BULLISH). Each relative difference is divided by a
  negative average and is negative: the source returns STRONG_BEARISH.
\<close>

theorem market_structure_negative_averages:
  "\<not> isl (MACross_init (mk_df (bars_of [- 4, - 3, - 2, - 1])) [1] [2, 3] ''SMA'') \<and>
   \<not> isl (MACross_analyze
            (projr (MACross_init (mk_df (bars_of [- 4, - 3, - 2, - 1])) [1] [2, 3] ''SMA''))
            (- 1 / 2)) \<and>
   last (ma_fast (projr (MACross_init (mk_df (bars_of [- 4, - 3, - 2, - 1])) [1] [2, 3] ''SMA'')))
     = Some (- 1) \<and>
   last (ma_slow (projr (MACross_init (mk_df (bars_of [- 4, - 3, - 2, - 1])) [1] [2, 3] ''SMA'')))
     = Some (- 3 / 2) \<and>
   last (ma_long (projr (MACross_init (mk_df (bars_of [- 4, - 3, - 2, - 1])) [1] [2, 3] ''SMA'')))
     = Some (- 2) \<and>
   market_structure (snd (projr (MACross_analyze
       (projr (MACross_init (mk_df (bars_of [- 4, - 3, - 2, - 1])) [1] [2, 3] ''SMA''))
       (- 1 / 2))))
     = STRONG_BEARISH \<and>
   spec_structure (spec_score (- 1 / 2) (Some (- 1)) (Some (- 3 / 2)) (Some (- 2)))
     = STRONG_BULLISH"
  by (intro conjI; code_simp)

section \<open>Cross history\<close>

lemma obj_eq_int_minus_one: "\<not> obj_eq_int v (- 1)"
  by (simp add: obj_eq_int_def split: option.splits)

lemma cross_events_no_death: "last_death_cross (cross_events faster slower lookback) = None"
  by (simp add: cross_events_def Let_def last_label_def obj_eq_int_minus_one split_def)

lemma get_cross_history_no_death:
  "last_death_cross (fst (get_cross_history st lookback)) = None \<and>
   last_death_cross (snd (get_cross_history st lookback)) = None"
  by (simp add: get_cross_history_def cross_events_no_death)

text \<open>
  C7. The differenced boolean series never holds \<open>-1\<close>, so no death cross is ever
  reported (\<open>get_cross_history_no_death\<close>), and a change from true to false is selected
  by the comparison with \<open>1\<close> like a change from false to true. Six bars with closes
  1, 2, 3, 4, 1, 1 and the periods 2, 3 and 4: the 2-bar average rises above the 3-bar
  average at row 2 and falls below it at row 4. The source reports row 4 as the last
  golden cross and no death cross; the specification's wording gives golden cross 2 and
  death cross 4.
\<close>

theorem cross_history_reports_death_cross_as_golden:
  "\<exists>st. MACross_init (mk_df (bars_of [1, 2, 3, 4, 1, 1])) [2] [3, 4] ''SMA'' = Inr st \<and>
     ma_fast st = [None, Some (3 / 2), Some (5 / 2), Some (7 / 2), Some (5 / 2), Some 1] \<and>
     ma_slow st = [None, None, Some 2, Some 3, Some (8 / 3), Some 2] \<and>
     fst (get_cross_history st 10) = \<lparr> last_golden_cross = Some 4, last_death_cross = None \<rparr> \<and>
     spec_cross_events (ma_fast st) (ma_slow st) 10 =
       \<lparr> last_golden_cross = Some 2, last_death_cross = Some 4 \<rparr>"
proof -
  let ?init = "MACross_init (mk_df (bars_of [1, 2, 3, 4, 1, 1])) [2] [3, 4] ''SMA''"
  have "\<not> isl ?init" by code_simp
  then obtain st where st: "?init = Inr st" by (auto dest: not_isl_Inr)
  have f: "ma_fast (projr ?init) = [None, Some (3 / 2), Some (5 / 2), Some (7 / 2), Some (5 / 2), Some 1]"
    by code_simp
  have s: "ma_slow (projr ?init) = [None, None, Some 2, Some 3, Some (8 / 3), Some 2]"
    by code_simp
  have g: "fst (get_cross_history (projr ?init) 10) = \<lparr> last_golden_cross = Some 4, last_death_cross = None \<rparr>"
    by code_simp
  have p: "spec_cross_events (ma_fast (projr ?init)) (ma_slow (projr ?init)) 10 =
       \<lparr> last_golden_cross = Some 2, last_death_cross = Some 4 \<rparr>"
    by code_simp
  from st f s g p show ?thesis by (intro exI [of _ st]) simp
qed

section \<open>Williams fractals\<close>

lemma setcol_simps [simp]:
  "nrows (setcol df c xs) = nrows df"
  "columns (setcol df c xs) = (columns df)(c := Some xs)"
  by (simp_all add: setcol_def)

lemma getcol_Inr: "getcol df c = Inr xs \<longleftrightarrow> columns df c = Some xs"
  by (simp add: getcol_def split: option.splits)

lemma fractal_column_InrD:
  assumes "fractal_column df src dst (rolling f) w = Inr df'" and "src \<noteq> dst"
  shows "\<exists>xs. columns df src = Some xs \<and> 0 \<le> w \<and> nrows df' = nrows df \<and>
           columns df' = (columns df)(dst := Some (where_equal xs (roll f (nat w) True xs)))"
proof -
  from assms(1) obtain xs where xs: "getcol df src = Inr xs"
    by (cases "getcol df src") (simp_all add: fractal_column_def)
  with assms(1) obtain ext where ext: "rolling f w True xs = Inr ext"
    by (cases "rolling f w True xs") (simp_all add: fractal_column_def)
  from ext have w: "0 \<le> w" and e: "ext = roll f (nat w) True xs"
    by (simp_all add: rolling_Inr)
  from xs have c: "columns df src = Some xs" by (simp add: getcol_Inr)
  have g1: "getcol (setcol df dst ext) src = Inr xs"
    using c assms(2) by (simp add: getcol_Inr)
  have g2: "getcol (setcol df dst ext) dst = Inr ext"
    by (simp add: getcol_Inr)
  from assms(1) have "df' = setcol (setcol df dst ext) dst (where_equal xs ext)"
    by (simp add: fractal_column_def xs ext Let_def g1 g2)
  then have "nrows df' = nrows df"
    and "columns df' = (columns df)(dst := Some (where_equal xs ext))"
    by simp_all
  with c w e show ?thesis by blast
qed

lemma WilliamsFractals_init_InrD:
  assumes "WilliamsFractals_init df n = Inr (df', st)"
  shows "\<exists>hi lo. columns df ''high'' = Some hi \<and> columns df ''low'' = Some lo \<and> 0 \<le> 2 * n + 1 \<and>
           nrows df' = nrows df \<and>
           columns df' = (columns df)(''fractal_up'' := Some (fractal_flags window_max n hi),
                                      ''fractal_down'' := Some (fractal_flags window_min n lo)) \<and>
           period st = n \<and>
           last_up_fractal st = last_or_none (dropna (fractal_flags window_max n hi)) \<and>
           last_down_fractal st = last_or_none (dropna (fractal_flags window_min n lo)) \<and>
           recent_up_fractals st = tail5 (dropna (fractal_flags window_max n hi)) \<and>
           recent_down_fractals st = tail5 (dropna (fractal_flags window_min n lo))"
proof -
  let ?w = "2 * n + 1"
  from assms obtain df1 where
    df1: "fractal_column df ''high'' ''fractal_up'' rolling_max ?w = Inr df1"
    by (cases "fractal_column df ''high'' ''fractal_up'' rolling_max ?w")
      (simp_all add: WilliamsFractals_init_def Let_def)
  with assms obtain df2 where
    df2: "fractal_column df1 ''low'' ''fractal_down'' rolling_min ?w = Inr df2"
    by (cases "fractal_column df1 ''low'' ''fractal_down'' rolling_min ?w")
      (simp_all add: WilliamsFractals_init_def Let_def)
  from fractal_column_InrD [OF df1 [unfolded rolling_max_def]] obtain hi where
    hi: "columns df ''high'' = Some hi" and w: "0 \<le> ?w" and n1: "nrows df1 = nrows df"
    and c1: "columns df1 = (columns df)(''fractal_up'' := Some (fractal_flags window_max n hi))"
    by (auto simp: fractal_flags_def)
  from fractal_column_InrD [OF df2 [unfolded rolling_min_def]] obtain lo where
    lo: "columns df1 ''low'' = Some lo" and n2: "nrows df2 = nrows df1"
    and c2: "columns df2 = (columns df1)(''fractal_down'' := Some (fractal_flags window_min n lo))"
    by (auto simp: fractal_flags_def)
  from lo c1 have lo': "columns df ''low'' = Some lo" by simp
  have gu: "getcol df2 ''fractal_up'' = Inr (fractal_flags window_max n hi)"
    by (simp add: getcol_Inr c2 c1)
  have gd: "getcol df2 ''fractal_down'' = Inr (fractal_flags window_min n lo)"
    by (simp add: getcol_Inr c2)
  from assms have eq: "(df', st) = (df2,
           \<lparr> period = n,
             last_up_fractal = last_or_none (dropna (fractal_flags window_max n hi)),
             last_down_fractal = last_or_none (dropna (fractal_flags window_min n lo)),
             recent_up_fractals = tail5 (dropna (fractal_flags window_max n hi)),
             recent_down_fractals = tail5 (dropna (fractal_flags window_min n lo)) \<rparr>)"
    by (simp add: WilliamsFractals_init_def Let_def df1 df2 gu gd)
  then have d: "df' = df2" and s: "st = \<lparr> period = n,
             last_up_fractal = last_or_none (dropna (fractal_flags window_max n hi)),
             last_down_fractal = last_or_none (dropna (fractal_flags window_min n lo)),
             recent_up_fractals = tail5 (dropna (fractal_flags window_max n hi)),
             recent_down_fractals = tail5 (dropna (fractal_flags window_min n lo)) \<rparr>"
    by blast+
  show ?thesis
    apply (rule exI [of _ hi], rule exI [of _ lo])
    apply (simp only: d s)
    apply (simp add: hi lo' w n1 n2 c1 c2)
    done
qed

lemma iloc_neg: "1 \<le> i \<Longrightarrow> i \<le> length xs \<Longrightarrow> iloc xs (- int i) = Inr (xs ! (length xs - i))"
  by (simp add: iloc_def Let_def nat_diff_distrib' of_nat_diff)

lemma scan_fractals_take:
  assumes "length down = length up" "\<forall>i\<in>set is. 1 \<le> i \<and> i \<le> length up" "length acc < 10"
  shows "scan_fractals up down is acc = Inr (take 10 (acc @ List.map_filter (tok_at up down) is))"
  using assms
proof (induction "is" arbitrary: acc)
  case Nil
  then show ?case by (simp add: List.map_filter_def)
next
  case (Cons i rest)
  from Cons.prems have i: "1 \<le> i" "i \<le> length up" "i \<le> length down" by simp_all
  note il = iloc_neg [OF i(1,2)] iloc_neg [OF i(1,3)]
  from Cons.prems have rest: "\<forall>i\<in>set rest. 1 \<le> i \<and> i \<le> length up" by simp
  note IH = Cons.IH [OF Cons.prems(1) rest]
  consider (u) "up ! (length up - i) \<noteq> None"
    | (d) "up ! (length up - i) = None" "down ! (length up - i) \<noteq> None"
    | (n) "up ! (length up - i) = None" "down ! (length up - i) = None"
    by blast
  then show ?case
  proof cases
    case u
    then have t: "tok_at up down i = Some ''up''" by (simp add: tok_at_def spec_token_def)
    show ?thesis
    proof (cases "length (acc @ [''up'']) = 10")
      case True
      with u show ?thesis by (simp add: il map_filter_simps t)
    next
      case False
      with Cons.prems(3) have "length (acc @ [''up'']) < 10" by simp
      from IH [OF this] u False show ?thesis by (simp add: il map_filter_simps t)
    qed
  next
    case d
    then have t: "tok_at up down i = Some ''down''" by (simp add: tok_at_def spec_token_def)
    show ?thesis
    proof (cases "length (acc @ [''down'']) = 10")
      case True
      with d show ?thesis by (simp add: il map_filter_simps t Cons.prems(1))
    next
      case False
      with Cons.prems(3) have "length (acc @ [''down'']) < 10" by simp
      from IH [OF this] d False show ?thesis by (simp add: il map_filter_simps t Cons.prems(1))
    qed
  next
    case n
    then have t: "tok_at up down i = None" by (simp add: tok_at_def spec_token_def)
    from IH [OF Cons.prems(3)] n Cons.prems(3) show ?thesis
      by (simp add: il map_filter_simps t Cons.prems(1))
  qed
qed

lemma map_tok_at_rev_tl:
  assumes "length down = length up"
  shows "map (tok_at up down) [1..<length up] = rev (tl (map2 spec_token up down))"
proof (rule nth_equalityI)
  show "length (map (tok_at up down) [1..<length up]) = length (rev (tl (map2 spec_token up down)))"
    using assms by simp
next
  fix k assume "k < length (map (tok_at up down) [1..<length up])"
  then have k: "k < length up - 1" by simp
  then have "Suc (length up - Suc (Suc k)) = length up - Suc k" by arith
  with k assms show "map (tok_at up down) [1..<length up] ! k = rev (tl (map2 spec_token up down)) ! k"
    by (simp add: rev_nth nth_tl tok_at_def)
qed

lemma map_filter_as_id: "List.map_filter f xs = List.map_filter id (map f xs)"
  by (induction xs) (simp_all add: map_filter_simps List.map_filter_def)

lemma scan_fractals_all:
  assumes "length down = length up"
  shows "scan_fractals up down [1..<length up] [] =
           Inr (take 10 (List.map_filter id (rev (tl (map2 spec_token up down)))))"
proof -
  have "scan_fractals up down [1..<length up] [] =
          Inr (take 10 ([] @ List.map_filter (tok_at up down) [1..<length up]))"
    by (rule scan_fractals_take [OF assms]) simp_all
  also have "List.map_filter (tok_at up down) [1..<length up] =
          List.map_filter id (map (tok_at up down) [1..<length up])"
    by (rule map_filter_as_id)
  also have "\<dots> = List.map_filter id (rev (tl (map2 spec_token up down)))"
    by (simp only: map_tok_at_rev_tl [OF assms])
  finally show ?thesis by simp
qed

lemma length_where_equal [simp]: "length (where_equal xs ys) = min (length xs) (length ys)"
  by (simp add: where_equal_def)

lemma length_fractal_flags [simp]: "length (fractal_flags f n xs) = length xs"
  by (simp add: fractal_flags_def)

lemma where_equal_nth_None:
  "i < length xs \<Longrightarrow> i < length ys \<Longrightarrow> ys ! i = None \<Longrightarrow> where_equal xs ys ! i = None"
  by (simp add: where_equal_def cell_eq_def split: option.splits)

lemma nat_window: "0 \<le> n \<Longrightarrow> nat (2 * n + 1) = 2 * nat n + 1"
  by (simp add: nat_add_distrib nat_mult_distrib)

lemma fractal_flags_first:
  assumes "1 \<le> n" "xs \<noteq> []"
  shows "fractal_flags f n xs ! 0 = None"
proof -
  from assms(1) have w: "nat (2 * n + 1) = 2 * nat n + 1" and n: "0 < nat n"
    by (simp_all add: nat_window)
  from assms(2) n have "roll f (2 * nat n + 1) True xs ! 0 = None"
    by (intro roll_centered_first) simp_all
  with assms(2) show ?thesis
    unfolding fractal_flags_def w by (intro where_equal_nth_None) simp_all
qed

lemma fractal_flags_last:
  assumes "1 \<le> n" "xs \<noteq> []"
  shows "last (fractal_flags f n xs) = None"
proof -
  from assms(1) have w: "nat (2 * n + 1) = 2 * nat n + 1" and n: "0 < nat n"
    by (simp_all add: nat_window)
  let ?i = "length xs - 1"
  from assms(2) have i: "?i < length xs" by (cases xs) simp_all
  with n have "roll f (2 * nat n + 1) True xs ! ?i = None"
    by (intro roll_centered_last) simp_all
  with i have "fractal_flags f n xs ! ?i = None"
    unfolding fractal_flags_def w by (intro where_equal_nth_None) simp_all
  moreover from assms(2) have "fractal_flags f n xs \<noteq> []"
    by (metis length_0_conv length_fractal_flags)
  ultimately show ?thesis by (simp add: last_conv_nth)
qed

lemma window_single: "i < length xs \<Longrightarrow> window_at (Suc 0) 0 xs i = [xs ! i]"
  by (simp add: window_at_def Let_def min_def Cons_nth_drop_Suc [symmetric])

lemma roll_single:
  assumes "\<And>x. f [x] = x"
  shows "roll f (Suc 0) True (column_of g bars) = column_of g bars"
proof (rule nth_equalityI)
  show "length (roll f (Suc 0) True (column_of g bars)) = length (column_of g bars)" by simp
next
  fix i assume "i < length (roll f (Suc 0) True (column_of g bars))"
  then have i: "i < length (column_of g bars)" by simp
  then have "column_of g bars ! i = Some (g (bars ! i))" by (simp add: column_of_def)
  with i show "roll f (Suc 0) True (column_of g bars) ! i = column_of g bars ! i"
    by (simp add: roll_nth center_offset_def window_single aggregate_def present_def assms)
qed

lemma fractal_flags_zero:
  assumes "\<And>x. f [x] = x"
  shows "fractal_flags f 0 (column_of g bars) = column_of g bars"
proof (rule nth_equalityI)
  show "length (fractal_flags f 0 (column_of g bars)) = length (column_of g bars)" by simp
next
  fix i assume "i < length (fractal_flags f 0 (column_of g bars))"
  then have i: "i < length bars" by simp
  then show "fractal_flags f 0 (column_of g bars) ! i = column_of g bars ! i"
    by (simp add: fractal_flags_def roll_single [OF assms] where_equal_def)
      (simp add: column_of_def cell_eq_def)
qed

lemma window_max_single: "window_max [x] = x" and window_min_single: "window_min [x] = x"
  by (simp_all add: window_max_def window_min_def)

lemma map_filter_append:
  "List.map_filter f (xs @ ys) = List.map_filter f xs @ List.map_filter f ys"
  by (simp add: List.map_filter_def)

lemma map_filter_id_drop_first:
  "List.map_filter id (rev (tl (None # xs))) = List.map_filter id (rev (None # xs))"
  by (simp add: map_filter_append)

lemma map_filter_id_drop_last:
  "List.map_filter id (rev (butlast (xs @ [None]))) = List.map_filter id (rev (xs @ [None]))"
  by simp

lemma map_filter_id_ends:
  assumes "ts \<noteq> [] \<Longrightarrow> hd ts = None \<and> last ts = None"
  shows "List.map_filter id (rev (tl ts)) = List.map_filter id (rev (butlast ts))"
proof (cases "ts = []")
  case True
  then show ?thesis by simp
next
  case False
  with assms have h: "hd ts = None" and l: "last ts = None" by simp_all
  from False h obtain xs where xs: "ts = None # xs" by (cases ts) auto
  from False l obtain ys where ys: "ts = ys @ [None]" by (metis append_butlast_last_id)
  have "List.map_filter id (rev (tl ts)) = List.map_filter id (rev ts)"
    unfolding xs by (rule map_filter_id_drop_first)
  also have "\<dots> = List.map_filter id (rev (butlast ts))"
    unfolding ys by (rule map_filter_id_drop_last [symmetric])
  finally show ?thesis .
qed

lemma mk_df_simps [simp]:
  "nrows (mk_df bars) = length bars"
  "columns (mk_df bars) ''high'' = Some (column_of high bars)"
  "columns (mk_df bars) ''low'' = Some (column_of low bars)"
  "columns (mk_df bars) ''close'' = Some (column_of close bars)"
  by (simp_all add: mk_df_def)

lemma tokens_period_zero:
  "map2 spec_token (column_of g bars) (column_of h bars) = replicate (length bars) (Some ''up'')"
  by (induction bars) (simp_all add: column_of_def spec_token_def)

lemma butlast_replicate': "butlast (replicate n x) = replicate (n - 1) x"
  by (simp add: butlast_conv_take)

lemma fractal_tokens_ends:
  fixes bars :: "bar list" and n :: int
  assumes "0 \<le> n"
  defines "tokens \<equiv> map2 spec_token (fractal_flags window_max n (column_of high bars))
                                      (fractal_flags window_min n (column_of low bars))"
  shows "List.map_filter id (rev (tl tokens)) = List.map_filter id (rev (butlast tokens))"
proof (cases "n = 0")
  case True
  then have "tokens = replicate (length bars) (Some ''up'')"
    unfolding tokens_def
    by (simp add: fractal_flags_zero window_max_single window_min_single tokens_period_zero)
  then show ?thesis by (simp add: butlast_replicate')
next
  case False
  with assms(1) have n: "1 \<le> n" by simp
  let ?up = "fractal_flags window_max n (column_of high bars)"
  let ?down = "fractal_flags window_min n (column_of low bars)"
  show ?thesis
  proof (rule map_filter_id_ends)
    assume ne: "tokens \<noteq> []"
    have lt: "length tokens = length bars" by (simp add: tokens_def)
    with ne have b: "bars \<noteq> []" by auto
    then have c: "column_of high bars \<noteq> []" "column_of low bars \<noteq> []"
      by (simp_all add: column_of_def)
    from b have len: "0 < length bars" by simp
    have "tokens ! 0 = None"
      using len fractal_flags_first [OF n c(1)] fractal_flags_first [OF n c(2)]
      by (simp add: tokens_def spec_token_def)
    with ne have h: "hd tokens = None" by (simp add: hd_conv_nth)
    from len have up: "?up ! (length bars - 1) = None"
      using fractal_flags_last [OF n c(1), of window_max] by (simp add: last_conv_nth flip: length_greater_0_conv)
    from len have down: "?down ! (length bars - 1) = None"
      using fractal_flags_last [OF n c(2), of window_min] by (simp add: last_conv_nth flip: length_greater_0_conv)
    from lt ne len up down have "last tokens = None"
      by (simp add: last_conv_nth tokens_def spec_token_def)
    with h show "hd tokens = None \<and> last tokens = None" by simp
  qed
qed

lemma recent_fractal_sequence_spec:
  assumes "WilliamsFractals_init (mk_df bars) n = Inr (df', st)"
  shows "recent_fractal_sequence df' =
           Inr (spec_recent_sequence (fractal_flags window_max n (column_of high bars))
                                     (fractal_flags window_min n (column_of low bars)))"
proof -
  let ?up = "fractal_flags window_max n (column_of high bars)"
  let ?down = "fractal_flags window_min n (column_of low bars)"
  from WilliamsFractals_init_InrD [OF assms] have n: "0 \<le> 2 * n + 1"
    and rows: "nrows df' = length bars"
    and up: "columns df' ''fractal_up'' = Some ?up"
    and down: "columns df' ''fractal_down'' = Some ?down"
    by auto
  from n have n0: "0 \<le> n" by simp
  have l: "length ?down = length ?up" by simp
  have rows': "nrows df' = length ?up" by (simp add: rows)
  have g1: "getcol df' ''fractal_up'' = Inr ?up" by (simp add: getcol_Inr up)
  have g2: "getcol df' ''fractal_down'' = Inr ?down" by (simp add: getcol_Inr down)
  have sc: "scan_fractals ?up ?down [1..<nrows df'] [] =
      Inr (take 10 (List.map_filter id (rev (butlast (map2 spec_token ?up ?down)))))"
    unfolding rows' scan_fractals_all [OF l] fractal_tokens_ends [OF n0] ..
  show ?thesis
    unfolding recent_fractal_sequence_def g1 g2 bindE_simps sc
    by (simp add: pad_none_def spec_recent_sequence_def Let_def)
qed

lemma length_spec_recent_sequence: "length (spec_recent_sequence up down) = 10"
  by (simp add: spec_recent_sequence_def Let_def)

lemma dominance_of_spec: "dominance_of ts = spec_dominance ts"
  by (simp add: dominance_of_def spec_dominance_def Let_def)

text \<open>
  C8. On every bar series, for every half-window that the constructor accepts,
  \<^verbatim>\<open>analyze\<close> succeeds and its recent fractal sequence is the one the specification
  describes: the tokens of the bars before the most recent one, read backward, \<open>up\<close>
  taking precedence over \<open>down\<close>, cut after ten and padded to ten with \<open>none\<close>; the
  dominance names the strictly more frequent token and is "no clear dominance"
  otherwise. The loop of the source reads the positions \<open>-1, ..., -(len - 1)\<close>: it does
  visit the last row and leaves out row \<open>0\<close>. The result is the same, because for a
  half-window of at least one neither the first nor the last row can be a fractal
  (\<open>fractal_flags_first\<close>, \<open>fractal_flags_last\<close>), and for a half-window of zero every row
  is an up-fractal (\<open>fractal_flags_zero\<close>); this is lemma \<open>fractal_tokens_ends\<close>.
\<close>

theorem recent_fractal_sequence_as_specified:
  "WilliamsFractals_init (mk_df bars) n = Inr (df', st) \<Longrightarrow>
   \<exists>up down a.
     columns df' ''fractal_up'' = Some up \<and> columns df' ''fractal_down'' = Some down \<and>
     WilliamsFractals_analyze df' st price = Inr (st, a) \<and>
     recent_sequence a = spec_recent_sequence up down \<and>
     length (recent_sequence a) = 10 \<and>
     dominance a = spec_dominance (recent_sequence a)"
proof -
  assume init: "WilliamsFractals_init (mk_df bars) n = Inr (df', st)"
  let ?up = "fractal_flags window_max n (column_of high bars)"
  let ?down = "fractal_flags window_min n (column_of low bars)"
  from WilliamsFractals_init_InrD [OF init]
  have up: "columns df' ''fractal_up'' = Some ?up"
    and down: "columns df' ''fractal_down'' = Some ?down"
    by auto
  let ?a = "\<lparr> position = position_signal st price,
           fractal_trend = trend_signal st,
           distances = distance_values st price,
           recent_sequence = spec_recent_sequence ?up ?down,
           dominance = dominance_of (spec_recent_sequence ?up ?down) \<rparr>"
  have "WilliamsFractals_analyze df' st price = Inr (st, ?a)"
    unfolding WilliamsFractals_analyze_def recent_fractal_sequence_spec [OF init] by simp
  with up down show ?thesis
    by (intro exI [of _ ?up] exI [of _ ?down] exI [of _ ?a])
      (simp add: length_spec_recent_sequence dominance_of_spec)
qed

theorem recent_fractal_sequence_as_specified_witness:
  "\<exists>df' st a.
     WilliamsFractals_init (mk_df (bars_of [1, 2, 3, 2, 1, 2, 3])) 2 = Inr (df', st) \<and>
     WilliamsFractals_analyze df' st 2 = Inr (st, a) \<and>
     recent_sequence a =
       [''down'', ''up'', ''none'', ''none'', ''none'', ''none'', ''none'', ''none'', ''none'', ''none''] \<and>
     dominance a = ''No clear dominance in recent fractals''"
proof -
  let ?init = "WilliamsFractals_init (mk_df (bars_of [1, 2, 3, 2, 1, 2, 3])) 2"
  let ?seq = "[''down'', ''up'', ''none'', ''none'', ''none'', ''none'', ''none'', ''none'',
    ''none'', ''none'']"
  have "\<not> isl ?init" by code_simp
  then obtain df' st where init: "?init = Inr (df', st)"
    by (cases ?init) auto
  from recent_fractal_sequence_as_specified [OF init, of 2] obtain a where
    an: "WilliamsFractals_analyze df' st 2 = Inr (st, a)"
    and dom: "dominance a = spec_dominance (recent_sequence a)"
    by blast
  have "recent_sequence (snd (projr
      (WilliamsFractals_analyze (fst (projr ?init)) (snd (projr ?init)) 2))) = ?seq"
    by code_simp
  with init an have seq: "recent_sequence a = ?seq" by simp
  have "spec_dominance ?seq = ''No clear dominance in recent fractals''" by code_simp
  with dom seq have "dominance a = ''No clear dominance in recent fractals''" by simp
  with init an seq show ?thesis by blast
qed

text \<open>
  C10. When the most recent up-fractal or the most recent down-fractal is exactly \<open>0\<close>,
  \<^verbatim>\<open>analyze\<close> returns an analysis without the position and without the distances,
  although the fractal exists: the guard tests the truth value of the number. With two
  non-zero fractals both results are present (\<open>nonzero_fractals_give_position\<close>).
\<close>

theorem zero_fractal_treated_as_absent:
  "WilliamsFractals_init (mk_df bars) n = Inr (df', st) \<Longrightarrow>
   last_up_fractal st = Some 0 \<or> last_down_fractal st = Some 0 \<Longrightarrow>
   \<exists>a. WilliamsFractals_analyze df' st price = Inr (st, a) \<and>
       position a = None \<and> distances a = None"
proof -
  assume init: "WilliamsFractals_init (mk_df bars) n = Inr (df', st)"
    and zero: "last_up_fractal st = Some 0 \<or> last_down_fractal st = Some 0"
  from zero have "\<not> (truthy (last_up_fractal st) \<and> truthy (last_down_fractal st))"
    by (auto simp: truthy_def)
  then have "position_signal st price = None" "distance_values st price = None"
    by (simp_all add: position_signal_def distance_values_def)
  then show ?thesis
    unfolding WilliamsFractals_analyze_def recent_fractal_sequence_spec [OF init] by simp
qed

theorem zero_fractal_treated_as_absent_witness:
  "\<exists>df' st a.
     WilliamsFractals_init (mk_df (bars_of [1, 2, 1, 0, 1, 1, 1])) 2 = Inr (df', st) \<and>
     last_up_fractal st = Some 1 \<and> last_down_fractal st = Some 0 \<and>
     WilliamsFractals_analyze df' st 2 = Inr (st, a) \<and>
     position a = None \<and> distances a = None"
proof -
  let ?init = "WilliamsFractals_init (mk_df (bars_of [1, 2, 1, 0, 1, 1, 1])) 2"
  have "\<not> isl ?init" by code_simp
  then obtain df' st where init: "?init = Inr (df', st)"
    by (cases ?init) auto
  have "last_up_fractal (snd (projr ?init)) = Some 1" by code_simp
  with init have up: "last_up_fractal st = Some 1" by simp
  have "last_down_fractal (snd (projr ?init)) = Some 0" by code_simp
  with init have down: "last_down_fractal st = Some 0" by simp
  from down have "last_up_fractal st = Some 0 \<or> last_down_fractal st = Some 0" ..
  from zero_fractal_treated_as_absent [OF init this, of 2] up down init
  show ?thesis by blast
qed

lemma nonzero_fractals_give_position:
  "WilliamsFractals_init (mk_df bars) n = Inr (df', st) \<Longrightarrow>
   last_up_fractal st = Some u \<Longrightarrow> last_down_fractal st = Some d \<Longrightarrow> u \<noteq> 0 \<Longrightarrow> d \<noteq> 0 \<Longrightarrow>
   \<exists>a. WilliamsFractals_analyze df' st price = Inr (st, a) \<and>
       position a \<noteq> None \<and> distances a \<noteq> None"
  unfolding WilliamsFractals_analyze_def
  by (simp add: recent_fractal_sequence_spec position_signal_def distance_values_def truthy_def)

section \<open>RSI divergence\<close>

lemma check_pair_few:
  "length price_points < 2 \<or> length rsi_points < 2 \<Longrightarrow> check_pair beyond price_points rsi_points = Inr False"
  by (auto simp: check_pair_def)

lemma get_divergence_short: "nrows df < lookback \<Longrightarrow> get_divergence df st lookback pw = Inr None"
  by (simp add: get_divergence_def)

lemma get_divergence_few:
  assumes "lookback \<le> nrows df" "columns df ''close'' = Some c"
    and "extrema rolling_max pw (iloc_tail (indexed c) lookback) = Inr price_peaks"
    and "extrema rolling_min pw (iloc_tail (indexed c) lookback) = Inr price_troughs"
    and "extrema rolling_max pw (iloc_tail (indexed (smoothed_rsi st)) lookback) = Inr rsi_peaks"
    and "extrema rolling_min pw (iloc_tail (indexed (smoothed_rsi st)) lookback) = Inr rsi_troughs"
    and "length price_peaks < 2 \<or> length rsi_peaks < 2"
    and "length price_troughs < 2 \<or> length rsi_troughs < 2"
  shows "get_divergence df st lookback pw = Inr (Some no_divergence)"
  using assms(1)
  by (simp add: get_divergence_def getcol_Inr [THEN iffD2, OF assms(2)] Let_def assms(3-6)
      check_pair_few [OF assms(7)] check_pair_few [OF assms(8)])

lemma extrema_total:
  "0 \<le> pw \<Longrightarrow> \<exists>pts. extrema (rolling f) pw s = Inr pts"
  by (simp add: extrema_def rolling_def)

lemma length_bars_of [simp]: "length (bars_of cs) = length cs"
  by (simp add: bars_of_def)

lemma bars_of_nth: "i < length cs \<Longrightarrow> bars_of cs ! i = flat_bar (int i) (cs ! i)"
  by (simp add: bars_of_def)

lemma column_of_bars_of [simp]:
  "column_of close (bars_of cs) = map Some cs"
  "column_of high (bars_of cs) = map Some cs"
  "column_of low (bars_of cs) = map Some cs"
  by (rule nth_equalityI; simp add: column_of_def bars_of_nth flat_bar_def)+

lemma ewm_from_zero: "ewm_from alpha (Some 0) 1 (replicate k (Some 0)) = replicate k (Some 0)"
  by (induction k) simp_all

lemma ewm_mean_zero: "ewm_mean alpha (replicate k (Some 0)) = replicate k (Some 0)"
  by (cases k) (simp_all add: ewm_mean_def ewm_from_zero)

lemma ewm_from_positive:
  assumes "0 < alpha" "alpha < 1"
  shows "0 < a \<Longrightarrow> list_all (\<lambda>c. 0 \<le> c) cs \<Longrightarrow>
         positive_cells (ewm_from alpha (Some a) 1 (map Some cs))"
proof (induction cs arbitrary: a)
  case Nil
  then show ?case by (simp add: positive_cells_def)
next
  case (Cons c cs)
  let ?a' = "if a \<noteq> c then ((1 - alpha) * a + alpha * c) / ((1 - alpha) + alpha) else a"
  from Cons.prems assms have "0 < (1 - alpha) * a" "0 \<le> alpha * c" by simp_all
  then have "0 < (1 - alpha) * a + alpha * c" by linarith
  with Cons.prems have pos: "0 < ?a'" by simp
  from Cons.prems have "list_all (\<lambda>c. 0 \<le> c) cs" by simp
  from Cons.IH [OF pos this] pos show ?case
    by (simp add: positive_cells_def Let_def)
qed

lemma diff_float_Some:
  "diff_float (map Some (x # xs)) = None # map Some (map2 (-) xs (x # xs))"
proof -
  have "map2 cell_sub (map Some xs) (map Some (x # xs)) = map Some (map2 (-) xs (x # xs))"
    by (induction xs arbitrary: x) (simp_all add: cell_sub_def)
  then show ?thesis by (simp add: diff_float_def)
qed

lemma steps_nonneg:
  fixes x :: real
  shows "sorted (x # xs) \<Longrightarrow> list_all (\<lambda>d. 0 \<le> d) (map2 (-) xs (x # xs))"
  by (induction xs arbitrary: x) auto

lemma loss_of_nonneg: "0 \<le> d \<Longrightarrow> loss_of (Some d) = Some 0" and loss_of_None: "loss_of None = Some 0"
  by (simp_all add: loss_of_def cell_gt_def)

lemma gain_of_nonneg: "0 \<le> d \<Longrightarrow> gain_of (Some d) = Some d" and gain_of_None: "gain_of None = Some 0"
  by (auto simp add: gain_of_def cell_gt_def)

lemma losses_nonneg:
  "list_all (\<lambda>d. 0 \<le> d) ds \<Longrightarrow> map loss_of (map Some ds) = replicate (length ds) (Some 0)"
  by (induction ds) (simp_all add: loss_of_nonneg)

lemma gains_nonneg:
  "list_all (\<lambda>d. 0 \<le> d) ds \<Longrightarrow> map gain_of (map Some ds) = map Some ds"
  by (induction ds) (simp_all add: gain_of_nonneg)

lemma rsi_value_no_loss: "0 < v \<Longrightarrow> rsi_value (Some v) (Some 0) = Some 100"
  by (simp add: rsi_value_def Let_def inf_of_sign_def flt_sub_def to_cell_def)

lemma rsi_value_flat: "rsi_value (Some 0) (Some 0) = None"
  by (simp add: rsi_value_def Let_def flt_sub_def to_cell_def)

lemma rsi_values_no_loss:
  "positive_cells ps \<Longrightarrow> map2 rsi_value ps (replicate (length ps) (Some 0)) = replicate (length ps) (Some 100)"
  by (induction ps) (auto simp: positive_cells_def rsi_value_no_loss split: option.splits)

lemma length_ewm_from [simp]: "length (ewm_from alpha avg w xs) = length xs"
  by (induction alpha avg w xs rule: ewm_from.induct) (simp_all add: Let_def)

lemma ewm_mean_gains:
  assumes "0 < alpha" "alpha < 1" "0 < d" "list_all (\<lambda>c. 0 \<le> c) ds"
  shows "\<exists>ps. ewm_mean alpha (Some 0 # Some d # map Some ds) = Some 0 # ps \<and>
              positive_cells ps \<and> length ps = Suc (length ds)"
proof -
  let ?a = "((1 - alpha) * 0 + alpha * d) / ((1 - alpha) + alpha)"
  from assms have a: "0 < ?a" by simp
  let ?ps = "Some ?a # ewm_from alpha (Some ?a) 1 (map Some ds)"
  from assms(3) have "ewm_mean alpha (Some 0 # Some d # map Some ds) = Some 0 # ?ps"
    by (simp add: ewm_mean_def Let_def)
  moreover have "positive_cells ?ps"
    using ewm_from_positive [OF assms(1,2) a assms(4)] a by (simp add: positive_cells_def)
  moreover have "length ?ps = Suc (length ds)" by simp
  ultimately show ?thesis by blast
qed

lemma RSI_init_nondecreasing:
  assumes "sorted (x # y # ys)" "x < y" "2 \<le> n"
  shows "RSI_init (mk_df (bars_of (x # y # ys))) n ty sn u m l =
           bindE (smooth ty sn (None # replicate (Suc (length ys)) (Some 100))) (\<lambda>sm.
             Inr \<lparr> rsi_length = n, smoothing_type = ty, smoothing_length = sn,
                   upper_limit = u, middle_limit = m, lower_limit = l,
                   rsi_series = None # replicate (Suc (length ys)) (Some 100),
                   smoothed_rsi = sm \<rparr>)"
proof -
  let ?cs = "x # y # ys"
  let ?ds = "map2 (-) ys (y # ys)"
  let ?alpha = "1 / real_of_int n"
  from assms(3) have al: "0 < ?alpha" "?alpha < 1" "?alpha \<le> 1" by simp_all
  from assms(3) have wa: "wilder_alpha n = Inr ?alpha" by (simp add: wilder_alpha_def)
  have delta: "diff_float (map Some ?cs) = None # Some (y - x) # map Some ?ds"
    using diff_float_Some [of x "y # ys"] by simp
  from assms(1) have "sorted (y # ys)" by simp
  then have ds: "list_all (\<lambda>d. 0 \<le> d) ?ds" by (rule steps_nonneg)
  from assms(2) have yx: "0 < y - x" "0 \<le> y - x" by simp_all
  have "map gain_of (None # Some (y - x) # map Some ?ds) = Some 0 # Some (y - x) # map Some ?ds"
    by (simp only: list.map gain_of_None gain_of_nonneg [OF yx(2)] gains_nonneg [OF ds])
  then have gains: "map gain_of (diff_float (map Some ?cs)) = Some 0 # Some (y - x) # map Some ?ds"
    by (simp only: delta)
  have "map loss_of (None # Some (y - x) # map Some ?ds) = replicate (Suc (Suc (length ys))) (Some 0)"
    by (simp only: list.map loss_of_None loss_of_nonneg [OF yx(2)] losses_nonneg [OF ds])
      (simp add: min_def)
  then have losses: "map loss_of (diff_float (map Some ?cs)) = replicate (Suc (Suc (length ys))) (Some 0)"
    by (simp only: delta)
  from ewm_mean_gains [OF al(1,2) yx(1) ds] obtain ps where
    ps: "ewm_mean ?alpha (Some 0 # Some (y - x) # map Some ?ds) = Some 0 # ps"
      "positive_cells ps" "length ps = Suc (length ys)"
    by auto
  have r: "map2 rsi_value (Some 0 # ps) (replicate (Suc (Suc (length ys))) (Some 0)) =
      None # replicate (Suc (length ys)) (Some 100)"
    using rsi_values_no_loss [OF ps(2)] by (simp add: ps(3) rsi_value_flat)
  show ?thesis
    unfolding RSI_init_def getcol_mk_df bindE_simps column_of_bars_of Let_def gains losses wa
      ewm_alpha_def ewm_mean_zero ps(1)
    using al by (simp only: if_True bindE_simps r simp_thms)
qed

lemma smooth_default_100:
  "smooth ''SMA'' 14 (None # replicate 29 (Some 100)) = Inr (replicate 14 None @ replicate 16 (Some 100))"
  by code_simp

lemma RSI_init_staircase:
  "RSI_init (mk_df (bars_of staircase_closes)) 14 ''SMA'' 14 70 50 30 =
     Inr \<lparr> rsi_length = 14, smoothing_type = ''SMA'', smoothing_length = 14,
           upper_limit = 70, middle_limit = 50, lower_limit = 30,
           rsi_series = None # replicate 29 (Some 100),
           smoothed_rsi = replicate 14 None @ replicate 16 (Some 100) \<rparr>"
proof -
  define ys where "ys = drop 2 staircase_closes"
  have cs: "staircase_closes = 1 # 2 # ys" by (simp add: ys_def staircase_closes_def)
  have len: "Suc (length ys) = 29" by (simp add: ys_def staircase_closes_def)
  have "sorted staircase_closes" by (simp add: staircase_closes_def)
  then have s: "sorted (1 # 2 # ys)" by (simp only: cs)
  have "RSI_init (mk_df (bars_of (1 # 2 # ys))) 14 ''SMA'' 14 70 50 30 =
           bindE (smooth ''SMA'' 14 (None # replicate (Suc (length ys)) (Some 100))) (\<lambda>sm.
             Inr \<lparr> rsi_length = 14, smoothing_type = ''SMA'', smoothing_length = 14,
                   upper_limit = 70, middle_limit = 50, lower_limit = 30,
                   rsi_series = None # replicate (Suc (length ys)) (Some 100),
                   smoothed_rsi = sm \<rparr>)"
    by (rule RSI_init_nondecreasing [OF s]) simp_all
  then show ?thesis
    by (simp only: cs [symmetric] len smooth_default_100 bindE_simps)
qed

lemma RSI_init_rising:
  "RSI_init (mk_df (bars_of rising_closes)) 14 ''SMA'' 14 70 50 30 =
     Inr \<lparr> rsi_length = 14, smoothing_type = ''SMA'', smoothing_length = 14,
           upper_limit = 70, middle_limit = 50, lower_limit = 30,
           rsi_series = None # replicate 29 (Some 100),
           smoothed_rsi = replicate 14 None @ replicate 16 (Some 100) \<rparr>"
proof -
  define ys where "ys = drop 2 rising_closes"
  have cs: "rising_closes = 1 # 2 # ys" by (simp add: ys_def rising_closes_def)
  have len: "Suc (length ys) = 29" by (simp add: ys_def rising_closes_def)
  have "sorted rising_closes" by (simp add: rising_closes_def)
  then have s: "sorted (1 # 2 # ys)" by (simp only: cs)
  have "RSI_init (mk_df (bars_of (1 # 2 # ys))) 14 ''SMA'' 14 70 50 30 =
           bindE (smooth ''SMA'' 14 (None # replicate (Suc (length ys)) (Some 100))) (\<lambda>sm.
             Inr \<lparr> rsi_length = 14, smoothing_type = ''SMA'', smoothing_length = 14,
                   upper_limit = 70, middle_limit = 50, lower_limit = 30,
                   rsi_series = None # replicate (Suc (length ys)) (Some 100),
                   smoothed_rsi = sm \<rparr>)"
    by (rule RSI_init_nondecreasing [OF s]) simp_all
  then show ?thesis
    by (simp only: cs [symmetric] len smooth_default_100 bindE_simps)
qed

text \<open>
  C4. With a non-negative peak window, \<^verbatim>\<open>get_divergence\<close> on a series shorter than
  \<open>lookback\<close> returns \<^verbatim>\<open>None\<close>, which is not a divergence record; on a series of at
  least \<open>lookback\<close> bars the four extremum lists are computed without error, and when
  fewer than two price peaks or fewer than two RSI peaks exist, and likewise for the
  troughs, the result is a record whose two flags are both false.
\<close>

theorem insufficient_data_distinguished:
  "0 \<le> peak_window \<Longrightarrow>
   (length bars < lookback \<longrightarrow>
      get_divergence (mk_df bars) st lookback peak_window = Inr None) \<and>
   (lookback \<le> length bars \<longrightarrow>
      (\<exists>price_peaks price_troughs rsi_peaks rsi_troughs.
         extrema rolling_max peak_window (iloc_tail (indexed (column_of close bars)) lookback)
           = Inr price_peaks \<and>
         extrema rolling_min peak_window (iloc_tail (indexed (column_of close bars)) lookback)
           = Inr price_troughs \<and>
         extrema rolling_max peak_window (iloc_tail (indexed (smoothed_rsi st)) lookback)
           = Inr rsi_peaks \<and>
         extrema rolling_min peak_window (iloc_tail (indexed (smoothed_rsi st)) lookback)
           = Inr rsi_troughs \<and>
         ((length price_peaks < 2 \<or> length rsi_peaks < 2) \<and>
          (length price_troughs < 2 \<or> length rsi_troughs < 2) \<longrightarrow>
          (\<exists>d. get_divergence (mk_df bars) st lookback peak_window = Inr (Some d) \<and>
               \<not> bullish_divergence d \<and> \<not> bearish_divergence d))))"
proof (intro conjI impI)
  assume "length bars < lookback"
  then show "get_divergence (mk_df bars) st lookback peak_window = Inr None"
    by (simp add: get_divergence_short)
next
  assume pw: "0 \<le> peak_window" and lb: "lookback \<le> length bars"
  let ?rp = "iloc_tail (indexed (column_of close bars)) lookback"
  let ?rr = "iloc_tail (indexed (smoothed_rsi st)) lookback"
  from extrema_total [OF pw] obtain pp pt rp rt where
    e: "extrema rolling_max peak_window ?rp = Inr pp" "extrema rolling_min peak_window ?rp = Inr pt"
      "extrema rolling_max peak_window ?rr = Inr rp" "extrema rolling_min peak_window ?rr = Inr rt"
    unfolding rolling_max_def rolling_min_def by metis
  have "get_divergence (mk_df bars) st lookback peak_window = Inr (Some no_divergence)"
    if "length pp < 2 \<or> length rp < 2" "length pt < 2 \<or> length rt < 2"
    using lb by (intro get_divergence_few [OF _ _ e that]) simp_all
  then have "(length pp < 2 \<or> length rp < 2) \<and> (length pt < 2 \<or> length rt < 2) \<longrightarrow>
          (\<exists>d. get_divergence (mk_df bars) st lookback peak_window = Inr (Some d) \<and>
               \<not> bullish_divergence d \<and> \<not> bearish_divergence d)"
    by (auto simp: no_divergence_def)
  with e show "\<exists>price_peaks price_troughs rsi_peaks rsi_troughs.
         extrema rolling_max peak_window ?rp = Inr price_peaks \<and>
         extrema rolling_min peak_window ?rp = Inr price_troughs \<and>
         extrema rolling_max peak_window ?rr = Inr rsi_peaks \<and>
         extrema rolling_min peak_window ?rr = Inr rsi_troughs \<and>
         ((length price_peaks < 2 \<or> length rsi_peaks < 2) \<and>
          (length price_troughs < 2 \<or> length rsi_troughs < 2) \<longrightarrow>
          (\<exists>d. get_divergence (mk_df bars) st lookback peak_window = Inr (Some d) \<and>
               \<not> bullish_divergence d \<and> \<not> bearish_divergence d))"
    by blast
qed

theorem insufficient_data_distinguished_witness:
  "(\<exists>st. RSI_init (mk_df (bars_of [10, 11, 12])) 14 ''SMA'' 14 70 50 30 = Inr st \<and>
         get_divergence (mk_df (bars_of [10, 11, 12])) st 30 5 = Inr None) \<and>
   (\<exists>st. RSI_init (mk_df (bars_of rising_closes)) 14 ''SMA'' 14 70 50 30 = Inr st \<and>
         extrema rolling_max 5 (iloc_tail (indexed (column_of close (bars_of rising_closes))) 30)
           = Inr [] \<and>
         extrema rolling_min 5 (iloc_tail (indexed (column_of close (bars_of rising_closes))) 30)
           = Inr [] \<and>
         (\<exists>d. get_divergence (mk_df (bars_of rising_closes)) st 30 5 = Inr (Some d) \<and>
              \<not> bullish_divergence d \<and> \<not> bearish_divergence d))"
proof -
  let ?short = "bars_of [10, 11, 12]"
  let ?long = "bars_of rising_closes"
  have "\<not> isl (RSI_init (mk_df ?short) 14 ''SMA'' 14 70 50 30)" by code_simp
  then obtain st3 where st3: "RSI_init (mk_df ?short) 14 ''SMA'' 14 70 50 30 = Inr st3"
    by (auto dest: not_isl_Inr)
  have pw: "(0::int) \<le> 5" by simp
  note T3 = insufficient_data_distinguished [OF pw, of ?short 30 st3]
  from T3 have short: "get_divergence (mk_df ?short) st3 30 5 = Inr None" by simp
  from RSI_init_rising obtain st where st: "RSI_init (mk_df ?long) 14 ''SMA'' 14 70 50 30 = Inr st"
    by blast
  have pp: "extrema rolling_max 5 (iloc_tail (indexed (map Some rising_closes)) 30) = Inr []"
    by code_simp
  have pt: "extrema rolling_min 5 (iloc_tail (indexed (map Some rising_closes)) 30) = Inr []"
    by code_simp
  have len: "length ?long = 30" by (simp add: rising_closes_def)
  note T = insufficient_data_distinguished [OF pw, of ?long 30 st]
  from T len pp pt obtain d where
    d: "get_divergence (mk_df ?long) st 30 5 = Inr (Some d)"
      "\<not> bullish_divergence d" "\<not> bearish_divergence d"
    by auto
  from st3 short st pp pt d show ?thesis by (auto simp del: upt_Suc)
qed

text \<open>
  C1. \<^verbatim>\<open>rsi_peaks.index.get_loc(label, method='nearest')\<close> returns a position, and the
  source uses it as \<^verbatim>\<open>rsi_peaks[position]\<close>, which on an integer index is a lookup by
  label. The run below is \<^verbatim>\<open>RSI(df)\<close> with the defaults (length 14, SMA smoothing over
  14) and \<^verbatim>\<open>get_divergence()\<close> with the defaults (lookback 30, peak window 5) on
  thirty bars with the closes \<open>staircase_closes\<close>. The closes never fall, so the RSI is
  100 from row 1 on (\<open>RSI_init_nondecreasing\<close>) and the smoothed RSI is 100 from row 14
  on. The price peaks are rows 17 and 22, the RSI peaks are rows 16 to 27. The position
  of the RSI peak nearest to row 22 is 6; no RSI peak has the label 6, and the lookup
  raises \<^verbatim>\<open>KeyError\<close>. By the specification no bearish divergence is present (the RSI
  peaks are equal), and a result saying so is expected.
\<close>

theorem divergence_lookup_raises:
  "\<exists>st price_peaks rsi_peaks.
     RSI_init (mk_df (bars_of staircase_closes)) 14 ''SMA'' 14 70 50 30 = Inr st \<and>
     extrema rolling_max 5 (iloc_tail (indexed (column_of close (bars_of staircase_closes))) 30)
       = Inr price_peaks \<and>
     price_peaks = [(17, Some 18), (22, Some 21)] \<and>
     extrema rolling_max 5 (iloc_tail (indexed (smoothed_rsi st)) 30) = Inr rsi_peaks \<and>
     rsi_peaks = map (\<lambda>i. (i, Some 100)) [16..<28] \<and>
     \<not> spec_bearish price_peaks rsi_peaks \<and>
     get_divergence (mk_df (bars_of staircase_closes)) st 30 5 = Inl KeyError"
proof -
  let ?st = "\<lparr> rsi_length = 14, smoothing_type = ''SMA'', smoothing_length = 14,
           upper_limit = 70, middle_limit = 50, lower_limit = 30,
           rsi_series = None # replicate 29 (Some 100),
           smoothed_rsi = replicate 14 None @ replicate 16 (Some 100) \<rparr>"
  let ?pp = "[(17, Some 18), (22, Some 21)] :: series"
  let ?rp = "map (\<lambda>i. (i, Some 100)) [16..<28] :: series"
  have p: "extrema rolling_max 5 (iloc_tail (indexed (map Some staircase_closes)) 30) = Inr ?pp"
    by code_simp
  have r: "extrema rolling_max 5 (iloc_tail (indexed (smoothed_rsi ?st)) 30) = Inr ?rp"
    by code_simp
  have s: "\<not> spec_bearish ?pp ?rp" by code_simp
  have g: "get_divergence (mk_df (bars_of staircase_closes)) ?st 30 5 = Inl KeyError"
    by code_simp
  from RSI_init_staircase p r s g show ?thesis
    by (intro exI [of _ ?st] exI [of _ ?pp] exI [of _ ?rp]) (simp del: upt_Suc)
qed

section \<open>The shared bar table\<close>

lemma run_keeps_store:
  "bindE m (\<lambda>st. bindE (f st) (\<lambda>r. Inr (df, r))) = Inr (df', r') \<Longrightarrow> df' = df"
  by (cases m) (auto simp: bindE_def split: sum.splits)

lemma WilliamsFractals_run_InrD:
  assumes "WilliamsFractals_run df n price = Inr (df', r)"
  shows "\<exists>st. WilliamsFractals_init df n = Inr (df', st)"
proof -
  from assms obtain d s where i: "WilliamsFractals_init df n = Inr (d, s)"
    by (cases "WilliamsFractals_init df n") (auto simp: WilliamsFractals_run_def)
  with assms have "d = df'"
    by (cases "WilliamsFractals_analyze d s price") (auto simp: WilliamsFractals_run_def)
  with i show ?thesis by blast
qed

text \<open>
  C2, as amended. For every bar table and every configuration, after an engine has been
  constructed and analysed: \<^verbatim>\<open>Ichimoku\<close>, \<^verbatim>\<open>RSI\<close> and \<^verbatim>\<open>MACross\<close> leave the shared table
  exactly as it was; \<^verbatim>\<open>WilliamsFractals\<close> leaves the number of rows and the six ingested
  columns (timestamp, open, high, low, close, volume) as they were, and every other
  column except two: it writes its derived series into the shared table as the columns
  \<^verbatim>\<open>fractal_up\<close> and \<^verbatim>\<open>fractal_down\<close>.
\<close>

theorem engines_write_only_fractal_columns:
  "(Ichimoku_run df tp kp sp d price = Inr (df1, r1) \<longrightarrow> df1 = df) \<and>
   (RSI_run df n ty sn upper middle lower = Inr (df2, r2) \<longrightarrow> df2 = df) \<and>
   (MACross_run df fast_periods slow_periods mty price = Inr (df3, r3) \<longrightarrow> df3 = df) \<and>
   (WilliamsFractals_run df p price = Inr (df4, r4) \<longrightarrow>
      nrows df4 = nrows df \<and>
      (\<forall>c \<in> ohlcv_columns. columns df4 c = columns df c) \<and>
      (\<forall>c. c \<noteq> ''fractal_up'' \<and> c \<noteq> ''fractal_down'' \<longrightarrow> columns df4 c = columns df c) \<and>
      columns df4 ''fractal_up'' \<noteq> None \<and> columns df4 ''fractal_down'' \<noteq> None)"
proof (intro conjI impI)
  assume "Ichimoku_run df tp kp sp d price = Inr (df1, r1)"
  then show "df1 = df" unfolding Ichimoku_run_def by (rule run_keeps_store)
next
  assume "RSI_run df n ty sn upper middle lower = Inr (df2, r2)"
  then show "df2 = df" unfolding RSI_run_def by (rule run_keeps_store)
next
  assume "MACross_run df fast_periods slow_periods mty price = Inr (df3, r3)"
  then show "df3 = df" unfolding MACross_run_def by (rule run_keeps_store)
next
  assume run: "WilliamsFractals_run df p price = Inr (df4, r4)"
  from WilliamsFractals_run_InrD [OF run] obtain st where
    "WilliamsFractals_init df p = Inr (df4, st)" ..
  from WilliamsFractals_init_InrD [OF this] obtain hi lo where
    rows: "nrows df4 = nrows df" and
    cols: "columns df4 = (columns df)(''fractal_up'' := Some (fractal_flags window_max p hi),
                                      ''fractal_down'' := Some (fractal_flags window_min p lo))"
    by blast
  show "nrows df4 = nrows df" by (rule rows)
  show "\<forall>c \<in> ohlcv_columns. columns df4 c = columns df c"
    by (simp add: cols ohlcv_columns_def)
  show "\<forall>c. c \<noteq> ''fractal_up'' \<and> c \<noteq> ''fractal_down'' \<longrightarrow> columns df4 c = columns df c"
    by (simp add: cols)
  show "columns df4 ''fractal_up'' \<noteq> None" by (simp add: cols)
  show "columns df4 ''fractal_down'' \<noteq> None" by (simp add: cols)
qed

theorem engines_write_only_fractal_columns_witness:
  "\<exists>r1 r2 r3 df4 r4.
     Ichimoku_run (mk_df (bars_of [1, 2, 3, 2, 1, 2, 3])) 2 3 4 1 2
       = Inr (mk_df (bars_of [1, 2, 3, 2, 1, 2, 3]), r1) \<and>
     RSI_run (mk_df (bars_of [1, 2, 3, 2, 1, 2, 3])) 2 ''SMA'' 2 70 50 30
       = Inr (mk_df (bars_of [1, 2, 3, 2, 1, 2, 3]), r2) \<and>
     MACross_run (mk_df (bars_of [1, 2, 3, 2, 1, 2, 3])) [2] [3, 4] ''SMA'' 2
       = Inr (mk_df (bars_of [1, 2, 3, 2, 1, 2, 3]), r3) \<and>
     WilliamsFractals_run (mk_df (bars_of [1, 2, 3, 2, 1, 2, 3])) 2 2 = Inr (df4, r4) \<and>
     nrows df4 = 7 \<and>
     columns df4 ''close'' = columns (mk_df (bars_of [1, 2, 3, 2, 1, 2, 3])) ''close'' \<and>
     columns df4 ''fractal_up'' \<noteq> None \<and> columns df4 ''fractal_down'' \<noteq> None"
proof -
  let ?df = "mk_df (bars_of [1, 2, 3, 2, 1, 2, 3])"
  have "\<not> isl (Ichimoku_run ?df 2 3 4 1 2)" by code_simp
  then obtain df1 r1 where 1: "Ichimoku_run ?df 2 3 4 1 2 = Inr (df1, r1)"
    by (cases "Ichimoku_run ?df 2 3 4 1 2") auto
  have "\<not> isl (RSI_run ?df 2 ''SMA'' 2 70 50 30)" by code_simp
  then obtain df2 r2 where 2: "RSI_run ?df 2 ''SMA'' 2 70 50 30 = Inr (df2, r2)"
    by (cases "RSI_run ?df 2 ''SMA'' 2 70 50 30") auto
  have "\<not> isl (MACross_run ?df [2] [3, 4] ''SMA'' 2)" by code_simp
  then obtain df3 r3 where 3: "MACross_run ?df [2] [3, 4] ''SMA'' 2 = Inr (df3, r3)"
    by (cases "MACross_run ?df [2] [3, 4] ''SMA'' 2") auto
  have "\<not> isl (WilliamsFractals_run ?df 2 2)" by code_simp
  then obtain df4 r4 where 4: "WilliamsFractals_run ?df 2 2 = Inr (df4, r4)"
    by (cases "WilliamsFractals_run ?df 2 2") auto
  note T = engines_write_only_fractal_columns [where df = ?df and price = 2]
  note d1 = T [where tp = 2 and kp = 3 and sp = 4 and d = 1 and ?df1.0 = df1 and ?r1.0 = r1,
      THEN conjunct1, THEN mp, OF 1]
  note d2 = T [where n = 2 and ty = "''SMA''" and sn = 2 and upper = 70 and middle = 50
      and lower = 30 and ?df2.0 = df2 and ?r2.0 = r2,
      THEN conjunct2, THEN conjunct1, THEN mp, OF 2]
  note d3 = T [where fast_periods = "[2]" and slow_periods = "[3, 4]" and mty = "''SMA''"
      and ?df3.0 = df3 and ?r3.0 = r3,
      THEN conjunct2, THEN conjunct2, THEN conjunct1, THEN mp, OF 3]
  note T4 = T [where p = 2 and ?df4.0 = df4 and ?r4.0 = r4,
      THEN conjunct2, THEN conjunct2, THEN conjunct2, THEN mp, OF 4]
  note rows = T4 [THEN conjunct1]
  note six = T4 [THEN conjunct2, THEN conjunct1]
  note up = T4 [THEN conjunct2, THEN conjunct2, THEN conjunct2, THEN conjunct1]
  note down = T4 [THEN conjunct2, THEN conjunct2, THEN conjunct2, THEN conjunct2]
  have "''close'' \<in> ohlcv_columns" by (simp add: ohlcv_columns_def)
  with six have c: "columns df4 ''close'' = columns ?df ''close''" by (rule bspec)
  from rows have n: "nrows df4 = 7" by (simp add: mk_df_def bars_of_def)
  have a1: "Ichimoku_run ?df 2 3 4 1 2 = Inr (?df, r1)" using 1 unfolding d1 .
  have a2: "RSI_run ?df 2 ''SMA'' 2 70 50 30 = Inr (?df, r2)" using 2 unfolding d2 .
  have a3: "MACross_run ?df [2] [3, 4] ''SMA'' 2 = Inr (?df, r3)" using 3 unfolding d3 .
  show ?thesis
    by (rule exI [of _ r1], rule exI [of _ r2], rule exI [of _ r3], rule exI [of _ df4],
        rule exI [of _ r4]) (intro conjI a1 a2 a3 4 n c up down)
qed

text \<open>
  The claim as stated, that no engine writes derived state into the shared bar structure,
  fails for \<^verbatim>\<open>WilliamsFractals\<close>. Seven bars with the closes 1, 2, 3, 2, 1, 2, 3 (high and low
  equal to the close) and the period 2: the table has no column \<^verbatim>\<open>fractal_up\<close> before the
  run, and after it holds \<^verbatim>\<open>fractal_up\<close> with the value 3 at the third bar and
  \<^verbatim>\<open>fractal_down\<close> with the value 1 at the fifth, NaN elsewhere.
\<close>

theorem fractals_write_into_shared_dataframe:
  "\<not> isl (WilliamsFractals_run (mk_df (bars_of [1, 2, 3, 2, 1, 2, 3])) 2 2) \<and>
   columns (mk_df (bars_of [1, 2, 3, 2, 1, 2, 3])) ''fractal_up'' = None \<and>
   columns (fst (projr (WilliamsFractals_run (mk_df (bars_of [1, 2, 3, 2, 1, 2, 3])) 2 2)))
     ''fractal_up'' = Some [None, None, Some 3, None, None, None, None] \<and>
   columns (fst (projr (WilliamsFractals_run (mk_df (bars_of [1, 2, 3, 2, 1, 2, 3])) 2 2)))
     ''fractal_down'' = Some [None, None, None, None, Some 1, None, None] \<and>
   fst (projr (WilliamsFractals_run (mk_df (bars_of [1, 2, 3, 2, 1, 2, 3])) 2 2))
     \<noteq> mk_df (bars_of [1, 2, 3, 2, 1, 2, 3])"
proof -
  let ?df = "mk_df (bars_of [1, 2, 3, 2, 1, 2, 3])"
  let ?df' = "fst (projr (WilliamsFractals_run ?df 2 2))"
  have a: "\<not> isl (WilliamsFractals_run ?df 2 2)" by code_simp
  have b: "columns ?df ''fractal_up'' = None" by (simp add: mk_df_def)
  have c: "columns ?df' ''fractal_up'' = Some [None, None, Some 3, None, None, None, None]"
    by code_simp
  have d: "columns ?df' ''fractal_down'' = Some [None, None, None, None, Some 1, None, None]"
    by code_simp
  from b c have "columns ?df' ''fractal_up'' \<noteq> columns ?df ''fractal_up''" by simp
  then have e: "?df' \<noteq> ?df" by (rule contrapos_nn) (erule arg_cong)
  show ?thesis by (intro conjI a b c d e)
qed

section \<open>Configuration\<close>


lemma rolling_accepts: "0 \<le> w \<Longrightarrow> \<not> isl (rolling f w c xs)"
  by (simp add: rolling_def)















end
